theory Spec2Isabelle
  imports Complex_Main
begin

section \<open>JavaScript values used by the trace writer\<close>

text \<open>
  The writer of \<^verbatim>\<open>lib/tracefile.js\<close> touches JavaScript numbers in three places: the
  option check \<^verbatim>\<open>(x >>> 0) === x\<close>, the size update \<^verbatim>\<open>fileSize += json.length\<close> and
  the threshold test \<^verbatim>\<open>fileSize >= maxFileSize\<close>. A number is a finite value, NaN or
  an infinity. Finite values are carried as rationals (every double is one); the sum of
  two finite values is taken exactly, which is what the machine computes whenever the
  exact sum is a double, in particular on integers below \<open>2^53\<close>. The sign of zero is
  not represented: \<^verbatim>\<open>===\<close>, \<^verbatim>\<open>>=\<close> and \<^verbatim>\<open>>>>\<close> do not see it.
\<close>

datatype jsnum = Fin rat | NaN | PosInf | NegInf

datatype jsval =
    Undefined
  | Null
  | Boolean bool
  | Number jsnum
  | String string
  | Object "(string \<times> jsval) list"

type_synonym jsobject = "(string \<times> jsval) list"

text \<open>\<^verbatim>\<open>typeof v\<close>; \<^verbatim>\<open>typeof null\<close> is \<^verbatim>\<open>'object'\<close>.\<close>

fun typeof :: "jsval \<Rightarrow> string" where
  "typeof Undefined = ''undefined''"
| "typeof Null = ''object''"
| "typeof (Boolean b) = ''boolean''"
| "typeof (Number n) = ''number''"
| "typeof (String s) = ''string''"
| "typeof (Object ps) = ''object''"

text \<open>
  \<^verbatim>\<open>obj.key\<close> on an object written as the list of its own properties. A key that the
  object does not have reads as \<^verbatim>\<open>undefined\<close> (\<^verbatim>\<open>Object.prototype\<close> has none of the keys
  read here: \<^verbatim>\<open>filename\<close>, \<^verbatim>\<open>maxFiles\<close>, \<^verbatim>\<open>maxFileSize\<close>, \<^verbatim>\<open>length\<close>).
\<close>

definition get_prop :: "jsobject \<Rightarrow> string \<Rightarrow> jsval" where
  "get_prop ps k = (case map_of ps k of None \<Rightarrow> Undefined | Some v \<Rightarrow> v)"

text \<open>\<^verbatim>\<open>v != null\<close>: false exactly on \<^verbatim>\<open>null\<close> and \<^verbatim>\<open>undefined\<close>.\<close>

fun not_nullish :: "jsval \<Rightarrow> bool" where
  "not_nullish Undefined = False"
| "not_nullish Null = False"
| "not_nullish v = True"

text \<open>
  \<^verbatim>\<open>x >>> 0\<close> is ToUint32: NaN and the infinities give 0, a finite value is truncated
  towards zero and reduced modulo \<open>2^32\<close>.
\<close>

definition trunc_rat :: "rat \<Rightarrow> int" where
  "trunc_rat q = (if 0 \<le> q then \<lfloor>q\<rfloor> else - \<lfloor>- q\<rfloor>)"

fun to_uint32 :: "jsnum \<Rightarrow> jsnum" where
  "to_uint32 (Fin q) = Fin (of_int (trunc_rat q mod 2 ^ 32))"
| "to_uint32 NaN = Fin 0"
| "to_uint32 PosInf = Fin 0"
| "to_uint32 NegInf = Fin 0"

text \<open>Number addition and \<^verbatim>\<open>>=\<close>; every comparison with NaN is false.\<close>

fun num_add :: "jsnum \<Rightarrow> jsnum \<Rightarrow> jsnum" where
  "num_add (Fin a) (Fin b) = Fin (a + b)"
| "num_add NaN y = NaN"
| "num_add x NaN = NaN"
| "num_add PosInf NegInf = NaN"
| "num_add NegInf PosInf = NaN"
| "num_add PosInf y = PosInf"
| "num_add NegInf y = NegInf"
| "num_add (Fin a) PosInf = PosInf"
| "num_add (Fin a) NegInf = NegInf"

fun num_ge :: "jsnum \<Rightarrow> jsnum \<Rightarrow> bool" where
  "num_ge (Fin a) (Fin b) = (b \<le> a)"
| "num_ge NaN y = False"
| "num_ge x NaN = False"
| "num_ge PosInf y = True"
| "num_ge x NegInf = True"
| "num_ge NegInf y = False"
| "num_ge (Fin a) PosInf = False"

text \<open>
  \<^verbatim>\<open>n += v\<close> for a number \<open>n\<close>: \<^verbatim>\<open>undefined\<close> converts to NaN, \<^verbatim>\<open>null\<close> to 0, a boolean to
  0 or 1. With a string or an object on the right \<^verbatim>\<open>+\<close> concatenates and the result is
  no number; the writer's size counter is a number in this development, so these two
  cases are left without an equation.
\<close>

fun plus_assign :: "jsnum \<Rightarrow> jsval \<Rightarrow> jsnum" where
  "plus_assign n Undefined = num_add n NaN"
| "plus_assign n Null = num_add n (Fin 0)"
| "plus_assign n (Boolean b) = num_add n (Fin (if b then 1 else 0))"
| "plus_assign n (Number m) = num_add n m"

text \<open>\<^verbatim>\<open>'' + n\<close> for a non-negative integer: its decimal digits.\<close>

fun digit_char :: "nat \<Rightarrow> char" where
  "digit_char n = ''0123456789'' ! n"

fun show_nat :: "nat \<Rightarrow> string" where
  "show_nat n = (if n < 10 then [digit_char n] else show_nat (n div 10) @ [digit_char (n mod 10)])"

declare show_nat.simps [simp del]

section \<open>Errors, the file system and the runtime\<close>

datatype error =
    AssertionError
  | TypeError
  | SystemError string

text \<open>\<^verbatim>\<open>e.code\<close>.\<close>

fun code :: "error \<Rightarrow> string" where
  "code AssertionError = ''ERR_ASSERTION''"
| "code TypeError = ''''"
| "code (SystemError c) = c"

text \<open>
  A write stream is known by the path it was opened on; a pending timer by its delay in
  milliseconds. Every timer the writer sets runs the same callback
  (\<^verbatim>\<open>this.timer = null; this.open()\<close>).
\<close>

datatype wstream = WriteStream string

datatype timeout = Timeout nat

text \<open>
  The world outside the writer: the files by path, and the timers set and not yet fired.
  Bytes written to a stream are taken to reach its file in the order of the writes.
\<close>

record world =
  files :: "string \<Rightarrow> string option"
  timers :: "timeout list"

text \<open>
  What the writer uses of the platform and is no code of this repository:
  \<^verbatim>\<open>JSON.stringify\<close> on an object, and \<^verbatim>\<open>path.extname\<close>, \<^verbatim>\<open>path.basename\<close>,
  \<^verbatim>\<open>path.dirname\<close>, \<^verbatim>\<open>path.join\<close>. They are parameters of the model.
\<close>

record runtime =
  stringify :: "jsobject \<Rightarrow> string"
  extname :: "string \<Rightarrow> string"
  basename :: "string \<Rightarrow> string \<Rightarrow> string"
  dirname :: "string \<Rightarrow> string"
  join :: "string \<Rightarrow> string \<Rightarrow> string"

text \<open>
  The outcome of each input/output request is the environment's choice: \<open>None\<close> lets the
  request run on the file system, \<open>Some e\<close> makes it fail with \<open>e\<close>. A close of the
  stream has two requests: \<open>flush_fault\<close> is an \<^verbatim>\<open>'error'\<close> event of the stream after
  \<^verbatim>\<open>stream.end()\<close> and before its \<^verbatim>\<open>'finish'\<close> (the write of the last bytes or the flush
  fails), \<open>close_fault\<close> one after \<^verbatim>\<open>'finish'\<close>, during \<^verbatim>\<open>stream.close()\<close>.
\<close>

record io =
  stat_fault :: "error option"
  open_fault :: "error option"
  flush_fault :: "error option"
  close_fault :: "error option"
  rename_fault :: "error option"

section \<open>The rotating trace log\<close>

text \<open>
  The fields of \<^verbatim>\<open>class RotatingTraceLog\<close>. \<^verbatim>\<open>filename\<close> is \<^verbatim>\<open>null\<close> only between the
  first lines of the constructor and \<^verbatim>\<open>fromOptions\<close>, which stores a string or throws;
  \<^verbatim>\<open>null\<close> and the empty string are both falsy and stand as \<open>''''\<close>. \<^verbatim>\<open>timer\<close> is not set
  by the constructor (\<^verbatim>\<open>undefined\<close>, here \<open>None\<close>). \<^verbatim>\<open>id\<close> is named \<open>id_seq\<close>.
\<close>

record writer =
  stream :: "wstream option"
  fileSize :: jsnum
  closed :: bool
  closing :: bool
  rotating :: bool
  bufferedEntries :: "jsobject list"
  filename :: string
  maxFiles :: jsnum
  maxFileSize :: jsnum
  id_seq :: nat
  firstEntry :: bool
  timer :: "timeout option"

definition initial :: writer where
  "initial = \<lparr> stream = None, fileSize = Fin 0, closed = True, closing = False,
     rotating = False, bufferedEntries = [], filename = '''', maxFiles = Fin 0,
     maxFileSize = Fin 100000000, id_seq = 0, firstEntry = True, timer = None \<rparr>"

text \<open>
  One optional threshold of \<^verbatim>\<open>fromOptions\<close>:
  \<^verbatim>\<open>if (v != null) { assert(typeof v === 'number'); assert((v >>> 0) === v); this.x = v; }\<close>
  with \<open>cur\<close> the value of the field before.
\<close>

definition checked_uint :: "jsval \<Rightarrow> jsnum \<Rightarrow> error + jsnum" where
  "checked_uint v cur =
     (if not_nullish v then
        (case v of
           Number n \<Rightarrow> if to_uint32 n = n then Inr n else Inl AssertionError
         | _ \<Rightarrow> Inl AssertionError)
      else Inr cur)"

text \<open>
  \<^verbatim>\<open>fromOptions(options)\<close>. \<^verbatim>\<open>typeof null\<close> passes the first assertion and the read of
  \<^verbatim>\<open>options.filename\<close> then throws a TypeError. When an assertion fails, the object
  under construction is lost with the exception, so no state is returned.
\<close>

definition fromOptions :: "jsval \<Rightarrow> writer \<Rightarrow> error + writer" where
  "fromOptions options w =
     (if typeof options \<noteq> ''object'' then Inl AssertionError
      else case options of
        Object ps \<Rightarrow>
          (case get_prop ps ''filename'' of
             String f \<Rightarrow>
               (case checked_uint (get_prop ps ''maxFiles'') (maxFiles w) of
                  Inl e \<Rightarrow> Inl e
                | Inr mf \<Rightarrow>
                    (case checked_uint (get_prop ps ''maxFileSize'') (maxFileSize w) of
                       Inl e \<Rightarrow> Inl e
                     | Inr ms \<Rightarrow> Inr (w\<lparr>filename := f, maxFiles := mf, maxFileSize := ms\<rparr>)))
           | _ \<Rightarrow> Inl AssertionError)
      | _ \<Rightarrow> Inl TypeError)"

definition constructor :: "jsval \<Rightarrow> error + writer" where
  "constructor options = fromOptions options initial"

subsection \<open>Streams and files\<close>

definition content :: "world \<Rightarrow> string \<Rightarrow> string" where
  "content wd p = (case files wd p of None \<Rightarrow> [] | Some c \<Rightarrow> c)"

text \<open>\<^verbatim>\<open>stream.write(bytes)\<close>. Its boolean result is not read anywhere in the writer.\<close>

fun stream_write :: "wstream \<Rightarrow> string \<Rightarrow> world \<Rightarrow> world" where
  "stream_write (WriteStream p) bytes wd = wd\<lparr>files := (files wd)(p \<mapsto> content wd p @ bytes)\<rparr>"

text \<open>\<^verbatim>\<open>bfs.stat(path)\<close>, of which only \<^verbatim>\<open>size\<close> is read.\<close>

definition bfs_stat :: "error option \<Rightarrow> world \<Rightarrow> string \<Rightarrow> error + nat" where
  "bfs_stat fault wd p =
     (case fault of
        Some e \<Rightarrow> Inl e
      | None \<Rightarrow> (case files wd p of None \<Rightarrow> Inl (SystemError ''ENOENT'') | Some c \<Rightarrow> Inr (length c)))"

text \<open>\<^verbatim>\<open>bfs.rename(oldPath, newPath)\<close>.\<close>

definition bfs_rename :: "error option \<Rightarrow> string \<Rightarrow> string \<Rightarrow> world \<Rightarrow> error + world" where
  "bfs_rename fault old new wd =
     (case fault of
        Some e \<Rightarrow> Inl e
      | None \<Rightarrow>
          (case files wd old of
             None \<Rightarrow> Inl (SystemError ''ENOENT'')
           | Some c \<Rightarrow> Inr (wd\<lparr>files := ((files wd)(old := None))(new \<mapsto> c)\<rparr>)))"

text \<open>
  \<^verbatim>\<open>openStream(filename, {flags, autoClose: true})\<close>: the promise around
  \<^verbatim>\<open>bfs.createWriteStream\<close>, resolved on \<^verbatim>\<open>'open'\<close> and rejected on \<^verbatim>\<open>'error'\<close>. Of the
  flags of Node only \<^verbatim>\<open>'w'\<close> (create the file or truncate it) and \<^verbatim>\<open>'a'\<close> (create it or
  append to it) are distinguished.
\<close>

definition openStream :: "error option \<Rightarrow> string \<Rightarrow> string \<Rightarrow> world \<Rightarrow> (error + wstream) \<times> world" where
  "openStream fault fname flags wd =
     (case fault of
        Some e \<Rightarrow> (Inl e, wd)
      | None \<Rightarrow>
          (Inr (WriteStream fname),
           wd\<lparr>files := (files wd)(fname \<mapsto> (if flags = ''w'' then [] else content wd fname))\<rparr>))"

subsection \<open>Asynchronous methods, cut at their awaits\<close>

text \<open>
  An \<^verbatim>\<open>async\<close> method runs until its next \<^verbatim>\<open>await\<close>, and other calls on the writer can
  run before it resumes. Each method is therefore given as its segments: a segment
  returns, throws, or stops at an await. The method run with nothing in between is the
  composition of its segments. A promise that is awaited and never settles leaves the
  method suspended for ever: that is \<open>Never\<close>, for the segment that would have resumed
  and for the method as a whole.
\<close>

datatype step = Return | Throw error | Await | Never

text \<open>\<^verbatim>\<open>retry()\<close>; the timer's callback is \<open>timer_fires\<close> below.\<close>

definition retry :: "writer \<times> world \<Rightarrow> writer \<times> world" where
  "retry s =
     (case s of (w, wd) \<Rightarrow>
        if timer w \<noteq> None then (w, wd)
        else (w\<lparr>timer := Some (Timeout 1000)\<rparr>, wd\<lparr>timers := timers wd @ [Timeout 1000]\<rparr>))"

text \<open>\<^verbatim>\<open>handleError(error)\<close>; the \<^verbatim>\<open>stream.close()\<close> in its \<^verbatim>\<open>try\<close> changes no file.\<close>

definition handleError :: "writer \<times> world \<Rightarrow> writer \<times> world" where
  "handleError s = (case s of (w, wd) \<Rightarrow> retry (w\<lparr>closed := True, stream := None\<rparr>, wd))"

text \<open>
  \<^verbatim>\<open>close()\<close> up to its first await: the two assertions, \<^verbatim>\<open>closing = true\<close>, the write of
  \<^verbatim>\<open>']}'\<close> and \<^verbatim>\<open>stream.end()\<close>.
\<close>

definition close_begin :: "writer \<times> world \<Rightarrow> step \<times> writer \<times> world" where
  "close_begin s =
     (case s of (w, wd) \<Rightarrow>
        if closed w then (Throw AssertionError, w, wd)
        else (case stream w of
                None \<Rightarrow> (Throw AssertionError, w, wd)
              | Some st \<Rightarrow> (Await, w\<lparr>closing := True\<rparr>, stream_write st '']}'' wd)))"

text \<open>
  The rest of \<^verbatim>\<open>close()\<close>, after \<^verbatim>\<open>await endStream(stream)\<close> and
  \<^verbatim>\<open>await closeStream(stream)\<close>.

  \<^verbatim>\<open>endStream\<close> resolves on \<^verbatim>\<open>'finish'\<close> and listens to nothing else. When the stream
  reports an error before \<^verbatim>\<open>'finish'\<close>, the listener that \<^verbatim>\<open>open()\<close> registered runs
  \<^verbatim>\<open>handleError\<close>, the promise of \<^verbatim>\<open>endStream\<close> never settles, and \<^verbatim>\<open>close()\<close> stays
  suspended: its \<^verbatim>\<open>finally\<close> block does not run and its caller gets nothing. The bytes
  written before the error stay in the file of the model.

  \<^verbatim>\<open>closeStream\<close> removes the error listeners of the stream, sets its own and rejects on
  \<^verbatim>\<open>'error'\<close>. The \<^verbatim>\<open>finally\<close> block holds \<^verbatim>\<open>closing = false\<close> only; the two assignments
  after it run when nothing was thrown.
\<close>

definition close_end :: "io \<Rightarrow> writer \<times> world \<Rightarrow> step \<times> writer \<times> world" where
  "close_end e s =
     (case s of (w, wd) \<Rightarrow>
        (case flush_fault e of
           Some err \<Rightarrow> (Never, handleError (w, wd))
         | None \<Rightarrow>
             (case close_fault e of
                Some err \<Rightarrow> (Throw err, w\<lparr>closing := False\<rparr>, wd)
              | None \<Rightarrow> (Return, w\<lparr>closing := False, stream := None, closed := True\<rparr>, wd))))"

definition close_all :: "io \<Rightarrow> writer \<times> world \<Rightarrow> step \<times> writer \<times> world" where
  "close_all e s =
     (case close_begin s of
        (Await, s1) \<Rightarrow> close_end e s1
      | (r, s1) \<Rightarrow> (r, s1))"

text \<open>
  \<^verbatim>\<open>rotate()\<close> up to its first await, which is the one inside the \<^verbatim>\<open>close()\<close> it calls.
  This is the part that runs inside \<^verbatim>\<open>writeTrace\<close>, which does not await the promise.
\<close>

definition rotate_begin :: "writer \<times> world \<Rightarrow> step \<times> writer \<times> world" where
  "rotate_begin s =
     (case s of (w, wd) \<Rightarrow>
        if rotating w then (Return, w, wd)
        else if stream w = None \<or> closed w then (Return, w, wd)
        else if filename w = '''' then (Throw AssertionError, w\<lparr>rotating := True\<rparr>, wd)
        else close_begin (w\<lparr>rotating := True\<rparr>, wd))"

text \<open>\<^verbatim>\<open>writeTrace(json)\<close>.\<close>

definition trace_prefix :: string where
  \<open>trace_prefix = ''{"traceEvents": [''\<close>

definition writeTrace :: "runtime \<Rightarrow> jsobject \<Rightarrow> writer \<times> world \<Rightarrow> bool \<times> writer \<times> world" where
  "writeTrace rt json s =
     (case s of (w, wd) \<Rightarrow>
        if stream w = None \<and> \<not> rotating w then (False, w, wd)
        else if closing w \<and> \<not> rotating w then (False, w, wd)
        else if rotating w then (True, w\<lparr>bufferedEntries := bufferedEntries w @ [json]\<rparr>, wd)
        else (case stream w of
                None \<Rightarrow> (False, w, wd)
              | Some st \<Rightarrow>
                  let str = stringify rt json;
                      wd1 = (if \<not> firstEntry w then stream_write st ('','' @ str) wd
                             else stream_write st str (stream_write st trace_prefix wd));
                      w1 = w\<lparr>firstEntry := False\<rparr>;
                      w2 = w1\<lparr>fileSize := plus_assign (fileSize w1) (get_prop json ''length'')\<rparr>
                  in if num_ge (fileSize w2) (maxFileSize w2)
                     then (case rotate_begin (w2, wd1) of (r, s3) \<Rightarrow> (True, s3))
                     else (True, w2, wd1)))"

text \<open>
  The loop at the end of \<^verbatim>\<open>open()\<close>:
  \<^verbatim>\<open>while (buffered.length > 0 && !rotating) { msg = shift(); if (!writeTrace(msg)) { unshift(msg); break; } }\<close>
\<close>

function drain :: "runtime \<Rightarrow> writer \<times> world \<Rightarrow> writer \<times> world" where
  "drain rt (w, wd) =
     (case bufferedEntries w of
        [] \<Rightarrow> (w, wd)
      | msg # rest \<Rightarrow>
          if rotating w then (w, wd)
          else (case writeTrace rt msg (w\<lparr>bufferedEntries := rest\<rparr>, wd) of
                  (ok, w', wd') \<Rightarrow>
                    if \<not> ok then (w'\<lparr>bufferedEntries := msg # bufferedEntries w'\<rparr>, wd')
                    else drain rt (w', wd')))"
  by pat_completeness auto
termination
  by (relation "measure (\<lambda>(rt, w, wd). length (bufferedEntries w))")
     (auto simp: writeTrace_def rotate_begin_def close_begin_def Let_def
           split: if_splits option.splits prod.splits)

declare drain.simps [simp del]

text \<open>\<^verbatim>\<open>getFileSize()\<close>.\<close>

definition getFileSize :: "error option \<Rightarrow> writer \<times> world \<Rightarrow> error + jsnum" where
  "getFileSize fault s =
     (case s of (w, wd) \<Rightarrow>
        (case bfs_stat fault wd (filename w) of
           Inr n \<Rightarrow> Inr (Fin (of_nat n))
         | Inl e \<Rightarrow> if code e = ''ENOENT'' then Inr (Fin 0) else Inl e))"

text \<open>
  \<^verbatim>\<open>open()\<close> in three segments: the assertions, up to the await of \<^verbatim>\<open>getFileSize()\<close>; the
  assignment of \<^verbatim>\<open>fileSize\<close>, up to the await of \<^verbatim>\<open>openStream\<close>; and the rest. The stream
  is opened with \<^verbatim>\<open>flags: 'w'\<close>.
\<close>

definition open_begin :: "writer \<times> world \<Rightarrow> step \<times> writer \<times> world" where
  "open_begin s =
     (case s of (w, wd) \<Rightarrow>
        if filename w = '''' then (Throw AssertionError, w, wd)
        else if stream w \<noteq> None then (Throw AssertionError, w, wd)
        else if \<not> closed w then (Throw AssertionError, w, wd)
        else (Await, w, wd))"

definition open_stat :: "io \<Rightarrow> writer \<times> world \<Rightarrow> step \<times> writer \<times> world" where
  "open_stat e s =
     (case s of (w, wd) \<Rightarrow>
        (case getFileSize (stat_fault e) (w, wd) of
           Inl err \<Rightarrow> (Throw err, w, wd)
         | Inr n \<Rightarrow> (Await, w\<lparr>fileSize := n\<rparr>, wd)))"

definition open_stream :: "runtime \<Rightarrow> io \<Rightarrow> writer \<times> world \<Rightarrow> writer \<times> world" where
  "open_stream rt e s =
     (case s of (w, wd) \<Rightarrow>
        (case openStream (open_fault e) (filename w) ''w'' wd of
           (Inl err, wd1) \<Rightarrow> retry (w, wd1)
         | (Inr st, wd1) \<Rightarrow> drain rt (w\<lparr>stream := Some st, closed := False\<rparr>, wd1)))"

definition open_all :: "runtime \<Rightarrow> io \<Rightarrow> writer \<times> world \<Rightarrow> (error + unit) \<times> writer \<times> world" where
  "open_all rt e s =
     (case open_begin s of
        (Throw err, s1) \<Rightarrow> (Inl err, s1)
      | (_, s1) \<Rightarrow>
          (case open_stat e s1 of
             (Throw err, s2) \<Rightarrow> (Inl err, s2)
           | (_, s2) \<Rightarrow> (Inr (), open_stream rt e s2)))"

text \<open>
  The callback that \<^verbatim>\<open>retry()\<close> hands to \<^verbatim>\<open>setTimeout\<close>, run when the oldest pending
  timer fires: \<^verbatim>\<open>this.timer = null; this.open()\<close>. A one-shot timer leaves the list.
\<close>

definition timer_fires :: "runtime \<Rightarrow> io \<Rightarrow> writer \<times> world \<Rightarrow> (error + unit) \<times> writer \<times> world" where
  "timer_fires rt e s =
     (case s of (w, wd) \<Rightarrow>
        (case timers wd of
           [] \<Rightarrow> (Inr (), w, wd)
         | t # ts \<Rightarrow> open_all rt e (w\<lparr>timer := None\<rparr>, wd\<lparr>timers := ts\<rparr>)))"

text \<open>
  The rest of \<^verbatim>\<open>rotate()\<close>. \<open>rotated_name\<close> is the value of \<^verbatim>\<open>rename\<close>;
  \<open>rotate_closed\<close> resumes when the awaited \<^verbatim>\<open>close()\<close> has settled and stops at the await
  of \<^verbatim>\<open>bfs.rename\<close> (a \<^verbatim>\<open>close()\<close> that throws makes \<^verbatim>\<open>rotate()\<close> throw, one that never
  settles leaves it suspended); \<open>rotate_renamed\<close> resumes with the outcome of the
  rename and stops at the call of \<^verbatim>\<open>open()\<close>, whose outcome is the one of \<^verbatim>\<open>rotate()\<close>.
\<close>

definition rotated_name :: "runtime \<Rightarrow> writer \<Rightarrow> string" where
  "rotated_name rt w =
     (let ext = extname rt (filename w);
          base = basename rt (filename w) ext;
          dir = dirname rt (filename w)
      in join rt dir (base @ ''.'' @ show_nat (id_seq w) @ ext))"

definition rotate_closed :: "io \<Rightarrow> writer \<times> world \<Rightarrow> step \<times> writer \<times> world" where
  "rotate_closed e s =
     (case close_end e s of
        (Return, s1) \<Rightarrow> (Await, s1)
      | (r, s1) \<Rightarrow> (r, s1))"

definition rotate_renamed :: "runtime \<Rightarrow> io \<Rightarrow> writer \<times> world \<Rightarrow> step \<times> writer \<times> world" where
  "rotate_renamed rt e s =
     (case s of (w, wd) \<Rightarrow>
        (case bfs_rename (rename_fault e) (filename w) (rotated_name rt w) wd of
           Inl err \<Rightarrow> (Throw err, w, wd)
         | Inr wd1 \<Rightarrow> (Await, w\<lparr>rotating := False, id_seq := id_seq w + 1\<rparr>, wd1)))"

definition settled :: "(error + unit) \<times> writer \<times> world \<Rightarrow> step \<times> writer \<times> world" where
  "settled r = (case r of (Inl err, s) \<Rightarrow> (Throw err, s) | (Inr u, s) \<Rightarrow> (Return, s))"

definition rotate_all :: "runtime \<Rightarrow> io \<Rightarrow> writer \<times> world \<Rightarrow> step \<times> writer \<times> world" where
  "rotate_all rt e s =
     (case rotate_begin s of
        (Await, s1) \<Rightarrow>
          (case rotate_closed e s1 of
             (Await, s2) \<Rightarrow>
               (case rotate_renamed rt e s2 of
                  (Await, s3) \<Rightarrow> settled (open_all rt e s3)
                | (r, s3) \<Rightarrow> (r, s3))
           | (r, s2) \<Rightarrow> (r, s2))
      | (r, s1) \<Rightarrow> (r, s1))"

section \<open>Notions used to state the properties\<close>

text \<open>
  The bytes that a run of accepted direct writes puts on the stream, the first of them
  made with \<^verbatim>\<open>firstEntry\<close> equal to \<open>fe\<close>: the prefix before a first entry, a comma
  before every other one.
\<close>

fun entries_text :: "runtime \<Rightarrow> bool \<Rightarrow> jsobject list \<Rightarrow> string" where
  "entries_text rt fe [] = []"
| "entries_text rt fe (r # rs) =
     (if fe then trace_prefix @ stringify rt r else '','' @ stringify rt r) @ entries_text rt False rs"

text \<open>
  The number that a string of decimal digits writes: \<open>digit_value\<close> is the place of a
  character among the ten digits, \<open>decimal\<close> reads a string from the left.
\<close>

definition digit_value :: "char \<Rightarrow> nat" where
  "digit_value c = length (takeWhile (\<lambda>d. d \<noteq> c) ''0123456789'')"

definition decimal :: "string \<Rightarrow> nat" where
  "decimal s = foldl (\<lambda>a c. 10 * a + digit_value c) 0 s"

text \<open>
  The file name that \<^verbatim>\<open>rotate()\<close> hands to \<^verbatim>\<open>path.join\<close> for the file \<open>f\<close> and the
  sequence id \<open>i\<close>: \<^verbatim>\<open>base + '.' + id + ext\<close>.
\<close>

definition file_part :: "runtime \<Rightarrow> string \<Rightarrow> nat \<Rightarrow> string" where
  "file_part rt f i = basename rt f (extname rt f) @ ''.'' @ show_nat i @ extname rt f"

text \<open>
  Two facts that the path functions of Node have on the path of a file, taken as a
  hypothesis where whole paths are compared: the path is the join of its directory with
  its base name and extension, and the join with that directory keeps apart the file
  names that differ, among the name of the file itself and its numbered names.
\<close>

definition decomposes :: "runtime \<Rightarrow> string \<Rightarrow> bool" where
  "decomposes rt f \<longleftrightarrow>
     join rt (dirname rt f) (basename rt f (extname rt f) @ extname rt f) = f \<and>
     inj_on (join rt (dirname rt f))
       (insert (basename rt f (extname rt f) @ extname rt f) (range (file_part rt f)))"

text \<open>An integer in \<open>[0, 2^32)\<close>, as a number.\<close>

definition is_uint32 :: "jsnum \<Rightarrow> bool" where
  "is_uint32 n \<longleftrightarrow> (\<exists>k::int. 0 \<le> k \<and> k < 2 ^ 32 \<and> n = Fin (of_int k))"

section \<open>A runtime to run the model on\<close>

text \<open>
  An instance of the platform functions for concrete runs. \<open>plain_stringify\<close> prints a
  flat object as \<^verbatim>\<open>JSON.stringify\<close> does when its values are non-negative integers and
  strings without characters that JSON escapes. The path functions are those of
  \<^verbatim>\<open>path\<close> on a file name without directory part: \<^verbatim>\<open>dirname\<close> is \<^verbatim>\<open>'.'\<close>, and
  \<^verbatim>\<open>join('.', x)\<close> is \<^verbatim>\<open>x\<close>.
\<close>

fun plain_value :: "jsval \<Rightarrow> string" where
  "plain_value (Number (Fin q)) = show_nat (nat \<lfloor>q\<rfloor>)"
| "plain_value (String s) = [CHR 0x22] @ s @ [CHR 0x22]"
| "plain_value (Boolean b) = (if b then ''true'' else ''false'')"
| "plain_value v = ''null''"

fun plain_members :: "jsobject \<Rightarrow> string" where
  "plain_members [] = []"
| "plain_members [(k, v)] = [CHR 0x22] @ k @ [CHR 0x22] @ '':'' @ plain_value v"
| "plain_members ((k, v) # ps) = [CHR 0x22] @ k @ [CHR 0x22] @ '':'' @ plain_value v @ '','' @ plain_members ps"

definition plain_stringify :: "jsobject \<Rightarrow> string" where
  "plain_stringify ps = ''{'' @ plain_members ps @ ''}''"

fun last_dot :: "string \<Rightarrow> nat option" where
  "last_dot [] = None"
| "last_dot (c # cs) =
     (case last_dot cs of
        Some i \<Rightarrow> Some (Suc i)
      | None \<Rightarrow> if c = CHR ''.'' then Some 0 else None)"

definition plain_extname :: "string \<Rightarrow> string" where
  "plain_extname f = (case last_dot f of None \<Rightarrow> [] | Some i \<Rightarrow> if i = 0 then [] else drop i f)"

definition plain_basename :: "string \<Rightarrow> string \<Rightarrow> string" where
  "plain_basename f ext =
     (if ext \<noteq> [] \<and> f \<noteq> ext \<and> length ext \<le> length f \<and> drop (length f - length ext) f = ext
      then take (length f - length ext) f else f)"

definition plain_runtime :: runtime where
  "plain_runtime = \<lparr> stringify = plain_stringify, extname = plain_extname,
     basename = plain_basename, dirname = (\<lambda>f. ''.''),
     join = (\<lambda>d b. if d = ''.'' then b else d @ ''/'' @ b) \<rparr>"

text \<open>
  The record that \<^verbatim>\<open>markTrace(name, phase)\<close> of \<^verbatim>\<open>lib/trace.js\<close> builds, for a process
  id and a timestamp that are whole numbers.
\<close>

definition markTrace :: "nat \<Rightarrow> nat \<Rightarrow> string \<Rightarrow> string \<Rightarrow> jsobject" where
  "markTrace p t name phase =
     [(''pid'', Number (Fin (of_nat p))), (''tid'', Number (Fin (of_nat p))),
      (''ts'', Number (Fin (of_nat t))), (''name'', String name), (''ph'', String phase)]"

text \<open>No fault, an empty file system, and the options \<^verbatim>\<open>{filename: 'trace.json'}\<close>.\<close>

definition no_fault :: io where
  "no_fault = \<lparr> stat_fault = None, open_fault = None, flush_fault = None, close_fault = None,
     rename_fault = None \<rparr>"

definition empty_world :: world where
  "empty_world = \<lparr> files = (\<lambda>p. None), timers = [] \<rparr>"

definition trace_options :: jsval where
  "trace_options = Object [(''filename'', String ''trace.json'')]"

text \<open>
  The writer that the constructor builds from these options, and the state after its
  \<^verbatim>\<open>open()\<close> on the empty file system: a stream on the new, empty \<^verbatim>\<open>trace.json\<close>.
\<close>

definition fresh_writer :: writer where
  "fresh_writer = initial\<lparr>filename := ''trace.json''\<rparr>"

definition opened_writer :: writer where
  "opened_writer = fresh_writer\<lparr>stream := Some (WriteStream ''trace.json''), closed := False\<rparr>"

definition opened_world :: world where
  "opened_world = \<lparr> files = (\<lambda>p. None)(''trace.json'' \<mapsto> []), timers = [] \<rparr>"

text \<open>A close sequence whose \<^verbatim>\<open>closeStream\<close> rejects with an input/output error.\<close>

definition close_fails :: io where
  "close_fails = no_fault\<lparr>close_fault := Some (SystemError ''EIO'')\<rparr>"

text \<open>A file system in which \<^verbatim>\<open>trace.json\<close> exists already and holds three bytes.\<close>

definition old_world :: world where
  "old_world = \<lparr> files = (\<lambda>p. None)(''trace.json'' \<mapsto> ''old''), timers = [] \<rparr>"

text \<open>
  A run of the opened writer: a begin record is written, \<^verbatim>\<open>rotate()\<close> runs to its end,
  an end record is written, and the writer is closed.
\<close>

definition after_first_write :: "writer \<times> world" where
  "after_first_write = snd (writeTrace plain_runtime (markTrace 1 0 ''a'' ''B'') (opened_writer, opened_world))"

definition after_rotation :: "writer \<times> world" where
  "after_rotation = snd (rotate_all plain_runtime no_fault after_first_write)"

definition after_second_write :: "writer \<times> world" where
  "after_second_write = snd (writeTrace plain_runtime (markTrace 1 5 ''a'' ''E'') after_rotation)"

definition after_close :: "writer \<times> world" where
  "after_close = snd (close_all no_fault after_second_write)"


text \<open>A record that has a \<^verbatim>\<open>length\<close> property, of value 12.\<close>

definition sized_record :: jsobject where
  "sized_record = [(''name'', String ''big''), (''length'', Number (Fin 12))]"



text \<open>
  A run in which \<^verbatim>\<open>writeTrace\<close> itself starts the rotation: the opened writer has the
  threshold 10, the record with \<^verbatim>\<open>length\<close> 12 is written, the rotation runs to its end
  with no fault, and an end record is written.
\<close>

definition after_threshold :: "writer \<times> world" where
  "after_threshold =
     snd (writeTrace plain_runtime sized_record (opened_writer\<lparr>maxFileSize := Fin 10\<rparr>, opened_world))"

definition after_threshold_rotation :: "writer \<times> world" where
  "after_threshold_rotation =
     open_stream plain_runtime no_fault
       (snd (open_stat no_fault
         (snd (open_begin
           (snd (rotate_renamed plain_runtime no_fault
             (snd (rotate_closed no_fault after_threshold))))))))"

definition after_threshold_write :: "writer \<times> world" where
  "after_threshold_write = snd (writeTrace plain_runtime (markTrace 1 5 ''a'' ''E'') after_threshold_rotation)"

text \<open>\<open>n\<close> calls of \<^verbatim>\<open>rotate()\<close>, each awaited before the next, with no fault.\<close>

fun rotations :: "runtime \<Rightarrow> nat \<Rightarrow> writer \<times> world \<Rightarrow> writer \<times> world" where
  "rotations rt 0 s = s"
| "rotations rt (Suc n) s = rotations rt n (snd (rotate_all rt no_fault s))"

text \<open>A close of the stream whose last write or flush fails.\<close>

definition flush_fails :: io where
  "flush_fails = no_fault\<lparr>flush_fault := Some (SystemError ''EIO'')\<rparr>"




section \<open>Properties\<close>

subsection \<open>Options of the constructor\<close>

lemma to_uint32_fixed: "to_uint32 n = n \<longleftrightarrow> is_uint32 n"
proof (cases n)
  case (Fin q)
  show ?thesis
  proof
    assume "to_uint32 n = n"
    with Fin have q: "q = of_int (trunc_rat q mod 2 ^ 32)" by simp
    have "0 \<le> trunc_rat q mod 2 ^ 32" "trunc_rat q mod 2 ^ 32 < 2 ^ 32" by simp_all
    with q Fin show "is_uint32 n" unfolding is_uint32_def by blast
  next
    assume "is_uint32 n"
    then obtain k :: int where k: "0 \<le> k" "k < 2 ^ 32" "n = Fin (of_int k)"
      unfolding is_uint32_def by blast
    then have "trunc_rat (of_int k) = k" by (simp add: trunc_rat_def)
    with k show "to_uint32 n = n" by simp
  qed
qed (simp_all add: is_uint32_def)

lemma checked_uint_if:
  "checked_uint v cur = Inr m \<longleftrightarrow>
     (if not_nullish v then v = Number m \<and> is_uint32 m else m = cur)"
  by (cases v) (auto simp: checked_uint_def to_uint32_fixed)

lemma constructor_Inr:
  "constructor options = Inr w \<longleftrightarrow>
     (\<exists>ps f mf ms. options = Object ps \<and> get_prop ps ''filename'' = String f \<and>
        checked_uint (get_prop ps ''maxFiles'') (Fin 0) = Inr mf \<and>
        checked_uint (get_prop ps ''maxFileSize'') (Fin 100000000) = Inr ms \<and>
        w = initial\<lparr>filename := f, maxFiles := mf, maxFileSize := ms\<rparr>)"
  by (cases options)
     (auto simp: constructor_def fromOptions_def initial_def split: jsval.splits sum.splits)

lemma is_uint32_ten: "is_uint32 (Fin 10)"
  unfolding is_uint32_def by (intro exI [of _ 10]) simp

subsection \<open>Single writes\<close>

lemma content_stream_write:
  "content (stream_write (WriteStream p) bytes wd) q = (if q = p then content wd p @ bytes else content wd q)"
  by (simp add: content_def)

lemma files_stream_write:
  "files (stream_write (WriteStream p) bytes wd) q = (if q = p then Some (content wd p @ bytes) else files wd q)"
  by simp

lemma timers_stream_write: "timers (stream_write st bytes wd) = timers wd"
  by (cases st) simp

lemma writeTrace_rotating:
  "rotating w \<Longrightarrow> writeTrace rt r (w, wd) = (True, w\<lparr>bufferedEntries := bufferedEntries w @ [r]\<rparr>, wd)"
  by (simp add: writeTrace_def)

lemma writeTrace_rejected:
  "\<not> rotating w \<Longrightarrow> stream w = None \<or> closing w \<Longrightarrow> writeTrace rt r (w, wd) = (False, w, wd)"
  by (auto simp: writeTrace_def)

lemma writeTrace_direct:
  assumes "\<not> rotating w" "stream w = Some (WriteStream p)" "\<not> closing w"
    and "writeTrace rt r (w, wd) = (b, w', wd')"
  shows "b" "bufferedEntries w' = bufferedEntries w" "\<not> firstEntry w'"
    "stream w' = stream w" "closed w' = closed w" "filename w' = filename w"
    "fileSize w' = plus_assign (fileSize w) (get_prop r ''length'')"
    "content wd' p = content wd p @ entries_text rt (firstEntry w) [r] @ (if closing w' then '']}'' else [])"
    "\<And>q. q \<noteq> p \<Longrightarrow> files wd' q = files wd q"
    "rotating w' \<longleftrightarrow> num_ge (fileSize w') (maxFileSize w) \<and> \<not> closed w"
    "closing w' \<longleftrightarrow> rotating w' \<and> filename w \<noteq> ''''"
  using assms
  by (auto simp: writeTrace_def rotate_begin_def close_begin_def Let_def content_def
           split: if_splits)

subsection \<open>The drain loop\<close>


lemma drain_empty: "bufferedEntries w = [] \<Longrightarrow> drain rt (w, wd) = (w, wd)"
  by (simp add: drain.simps)


lemma entries_text_append:
  "entries_text rt fe (xs @ ys) = entries_text rt fe xs @ entries_text rt (fe \<and> xs = []) ys"
  by (induction xs arbitrary: fe) auto


subsection \<open>The new writer and its first open\<close>

lemma constructor_fresh: "constructor trace_options = Inr fresh_writer"
  by (simp add: constructor_def fromOptions_def trace_options_def fresh_writer_def get_prop_def
        checked_uint_def)

lemma open_fresh:
  "open_all plain_runtime no_fault (fresh_writer, empty_world) = (Inr (), opened_writer, opened_world)"
  by (simp add: open_all_def open_begin_def open_stat_def open_stream_def getFileSize_def
        bfs_stat_def openStream_def no_fault_def fresh_writer_def initial_def empty_world_def
        opened_writer_def opened_world_def drain_empty)

lemma handleError_retries:
  "handleError (w, wd) = retry (w\<lparr>closed := True, stream := None\<rparr>, wd)"
  "closed (fst (handleError (w, wd)))" "stream (fst (handleError (w, wd))) = None"
  "timer (fst (handleError (w, wd))) \<noteq> None"
  by (simp_all add: handleError_def retry_def)

subsection \<open>Construction\<close>

text \<open>
  C10. The constructor succeeds exactly when the options are an object whose
  \<^verbatim>\<open>filename\<close> is a string and whose \<^verbatim>\<open>maxFiles\<close> and \<^verbatim>\<open>maxFileSize\<close>, where supplied
  (neither \<^verbatim>\<open>null\<close> nor \<^verbatim>\<open>undefined\<close>), are numbers that are integers in \<open>[0, 2^32)\<close>; in
  every other case it throws. The accepted values are stored as given, the defaults
  are 0 and 100000000, and the rest of the state is \<^verbatim>\<open>closed = true\<close>, \<^verbatim>\<open>stream = null\<close>,
  \<^verbatim>\<open>fileSize = 0\<close>, \<^verbatim>\<open>id = 0\<close>, \<^verbatim>\<open>firstEntry = true\<close> and an empty buffer.
\<close>

theorem constructor_validates:
  "constructor options = Inr w \<longleftrightarrow>
     (\<exists>ps f mf ms.
        options = Object ps \<and> get_prop ps ''filename'' = String f \<and>
        (if not_nullish (get_prop ps ''maxFiles'')
         then get_prop ps ''maxFiles'' = Number mf \<and> is_uint32 mf else mf = Fin 0) \<and>
        (if not_nullish (get_prop ps ''maxFileSize'')
         then get_prop ps ''maxFileSize'' = Number ms \<and> is_uint32 ms else ms = Fin 100000000) \<and>
        w = \<lparr> stream = None, fileSize = Fin 0, closed = True, closing = False,
              rotating = False, bufferedEntries = [], filename = f, maxFiles = mf,
              maxFileSize = ms, id_seq = 0, firstEntry = True, timer = None \<rparr>)"
  unfolding constructor_Inr checked_uint_if by (simp add: initial_def)

text \<open>
  The options \<^verbatim>\<open>{filename: 'trace.json', maxFileSize: 10}\<close> are accepted; a negative, a
  fractional, a NaN and a \<open>2^32\<close> threshold are each rejected by an assertion, and so
  is a file name that is no string.
\<close>

theorem constructor_validates_witness:
  "constructor (Object [(''filename'', String ''trace.json''), (''maxFileSize'', Number (Fin 10))])
     = Inr \<lparr> stream = None, fileSize = Fin 0, closed = True, closing = False,
             rotating = False, bufferedEntries = [], filename = ''trace.json'', maxFiles = Fin 0,
             maxFileSize = Fin 10, id_seq = 0, firstEntry = True, timer = None \<rparr>
   \<and> constructor (Object [(''filename'', String ''t''), (''maxFiles'', Number (Fin (- 1)))]) = Inl AssertionError
   \<and> constructor (Object [(''filename'', String ''t''), (''maxFiles'', Number (Fin (3 / 2)))]) = Inl AssertionError
   \<and> constructor (Object [(''filename'', String ''t''), (''maxFileSize'', Number NaN)]) = Inl AssertionError
   \<and> constructor (Object [(''filename'', String ''t''), (''maxFileSize'', Number (Fin 4294967296))]) = Inl AssertionError
   \<and> constructor (Object [(''filename'', Number (Fin 1))]) = Inl AssertionError"
proof -
  let ?opts = "Object [(''filename'', String ''trace.json''), (''maxFileSize'', Number (Fin 10))]"
  have "\<exists>ps f mf ms.
        ?opts = Object ps \<and> get_prop ps ''filename'' = String f \<and>
        (if not_nullish (get_prop ps ''maxFiles'')
         then get_prop ps ''maxFiles'' = Number mf \<and> is_uint32 mf else mf = Fin 0) \<and>
        (if not_nullish (get_prop ps ''maxFileSize'')
         then get_prop ps ''maxFileSize'' = Number ms \<and> is_uint32 ms else ms = Fin 100000000) \<and>
        \<lparr> stream = None, fileSize = Fin 0, closed = True, closing = False,
             rotating = False, bufferedEntries = [], filename = ''trace.json'', maxFiles = Fin 0,
             maxFileSize = Fin 10, id_seq = 0, firstEntry = True, timer = None \<rparr>
         = \<lparr> stream = None, fileSize = Fin 0, closed = True, closing = False,
              rotating = False, bufferedEntries = [], filename = f, maxFiles = mf,
              maxFileSize = ms, id_seq = 0, firstEntry = True, timer = None \<rparr>"
    by (intro exI [of _ "[(''filename'', String ''trace.json''), (''maxFileSize'', Number (Fin 10))]"]
              exI [of _ "''trace.json''"] exI [of _ "Fin 0"] exI [of _ "Fin 10"])
       (simp add: get_prop_def is_uint32_ten)
  then have ok: "constructor ?opts
     = Inr \<lparr> stream = None, fileSize = Fin 0, closed = True, closing = False,
             rotating = False, bufferedEntries = [], filename = ''trace.json'', maxFiles = Fin 0,
             maxFileSize = Fin 10, id_seq = 0, firstEntry = True, timer = None \<rparr>"
    by (simp only: constructor_validates)
  have neg: "constructor (Object [(''filename'', String ''t''), (''maxFiles'', Number (Fin (- 1)))]) = Inl AssertionError"
    by code_simp
  have frac: "constructor (Object [(''filename'', String ''t''), (''maxFiles'', Number (Fin (3 / 2)))]) = Inl AssertionError"
    by code_simp
  have nan: "constructor (Object [(''filename'', String ''t''), (''maxFileSize'', Number NaN)]) = Inl AssertionError"
    by code_simp
  have big: "constructor (Object [(''filename'', String ''t''), (''maxFileSize'', Number (Fin 4294967296))]) = Inl AssertionError"
    by code_simp
  have nostr: "constructor (Object [(''filename'', Number (Fin 1))]) = Inl AssertionError"
    by code_simp
  from ok neg frac nan big nostr show ?thesis by (intro conjI)
qed

subsection \<open>Retry\<close>

lemma retry_pending: "timer w \<noteq> None \<Longrightarrow> retry (w, wd) = (w, wd)"
  by (simp add: retry_def)

lemma retry_twice: "retry (retry s) = retry s"
  by (cases s) (simp add: retry_def)

lemma retry_funpow: "(retry ^^ Suc n) s = retry s"
  by (induction n) (simp_all add: retry_twice)

text \<open>
  C9. \<^verbatim>\<open>retry()\<close> does nothing while a timer is pending; otherwise it sets one timer of
  1000 ms and marks it pending. Any number of calls in a row has the effect of one. When
  the timer fires it clears the mark and calls \<^verbatim>\<open>open()\<close>: a \<^verbatim>\<open>retry()\<close> followed by the
  firing of its timer is one \<^verbatim>\<open>open()\<close>.
\<close>

theorem retry_schedules_once:
  "(timer w \<noteq> None \<longrightarrow> retry (w, wd) = (w, wd)) \<and>
   (timer w = None \<longrightarrow>
      retry (w, wd) = (w\<lparr>timer := Some (Timeout 1000)\<rparr>, wd\<lparr>timers := timers wd @ [Timeout 1000]\<rparr>)) \<and>
   (retry ^^ Suc n) (w, wd) = retry (w, wd) \<and>
   (timer w = None \<and> timers wd = [] \<longrightarrow> timer_fires rt e (retry (w, wd)) = open_all rt e (w, wd))"
proof (intro conjI impI)
  show "(retry ^^ Suc n) (w, wd) = retry (w, wd)" by (rule retry_funpow)
next
  assume h: "timer w = None \<and> timers wd = []"
  then have eq: "w\<lparr>timer := None\<rparr> = w" "wd\<lparr>timers := []\<rparr> = wd" by simp_all
  from h have "timer_fires rt e (retry (w, wd)) = open_all rt e (w\<lparr>timer := None\<rparr>, wd\<lparr>timers := []\<rparr>)"
    by (simp add: retry_def timer_fires_def)
  then show "timer_fires rt e (retry (w, wd)) = open_all rt e (w, wd)"
    by (simp only: eq)
qed (simp_all add: retry_def)

theorem retry_schedules_once_witness:
  "timer fresh_writer = None \<and> timers empty_world = [] \<and>
   retry (fresh_writer, empty_world)
     = (fresh_writer\<lparr>timer := Some (Timeout 1000)\<rparr>, empty_world\<lparr>timers := [Timeout 1000]\<rparr>) \<and>
   retry (retry (retry (fresh_writer, empty_world))) = retry (fresh_writer, empty_world) \<and>
   timer_fires plain_runtime no_fault (retry (fresh_writer, empty_world))
     = (Inr (), opened_writer, opened_world) \<and>
   timer (fresh_writer\<lparr>timer := Some (Timeout 1000)\<rparr>) \<noteq> None \<and>
   retry (fresh_writer\<lparr>timer := Some (Timeout 1000)\<rparr>, empty_world\<lparr>timers := [Timeout 1000]\<rparr>)
     = (fresh_writer\<lparr>timer := Some (Timeout 1000)\<rparr>, empty_world\<lparr>timers := [Timeout 1000]\<rparr>)"
proof -
  have t: "timer fresh_writer = None" "timers empty_world = []"
    by (simp_all add: fresh_writer_def initial_def empty_world_def)
  note a = retry_schedules_once [of fresh_writer empty_world 2 plain_runtime no_fault]
  from a t have a1: "retry (fresh_writer, empty_world)
      = (fresh_writer\<lparr>timer := Some (Timeout 1000)\<rparr>,
         empty_world\<lparr>timers := timers empty_world @ [Timeout 1000]\<rparr>)"
    by blast
  from a have a2: "(retry ^^ Suc 2) (fresh_writer, empty_world) = retry (fresh_writer, empty_world)"
    by blast
  from a t have a3: "timer_fires plain_runtime no_fault (retry (fresh_writer, empty_world))
      = open_all plain_runtime no_fault (fresh_writer, empty_world)"
    by blast
  have p: "timer (fresh_writer\<lparr>timer := Some (Timeout 1000)\<rparr>) \<noteq> None" by simp
  from retry_schedules_once [of "fresh_writer\<lparr>timer := Some (Timeout 1000)\<rparr>"
      "empty_world\<lparr>timers := [Timeout 1000]\<rparr>" 0 plain_runtime no_fault] p
  have b1: "retry (fresh_writer\<lparr>timer := Some (Timeout 1000)\<rparr>, empty_world\<lparr>timers := [Timeout 1000]\<rparr>)
     = (fresh_writer\<lparr>timer := Some (Timeout 1000)\<rparr>, empty_world\<lparr>timers := [Timeout 1000]\<rparr>)"
    by blast
  have three: "(retry ^^ Suc 2) (fresh_writer, empty_world) = retry (retry (retry (fresh_writer, empty_world)))"
    by (simp add: numeral_2_eq_2)
  have c1: "retry (fresh_writer, empty_world)
      = (fresh_writer\<lparr>timer := Some (Timeout 1000)\<rparr>, empty_world\<lparr>timers := [Timeout 1000]\<rparr>)"
    using a1 t(2) by simp
  have c2: "retry (retry (retry (fresh_writer, empty_world))) = retry (fresh_writer, empty_world)"
    using a2 three by simp
  have c3: "timer_fires plain_runtime no_fault (retry (fresh_writer, empty_world))
     = (Inr (), opened_writer, opened_world)"
    using a3 open_fresh by simp
  from t c1 c2 c3 p b1 show ?thesis by (intro conjI)
qed

subsection \<open>Opening\<close>

lemma getFileSize_cases:
  "getFileSize fault (w, wd) =
     (case fault of
        None \<Rightarrow> (case files wd (filename w) of
                   None \<Rightarrow> Inr (Fin 0)
                 | Some c \<Rightarrow> Inr (Fin (of_nat (length c))))
      | Some err \<Rightarrow> if code err = ''ENOENT'' then Inr (Fin 0) else Inl err)"
  by (simp add: getFileSize_def bfs_stat_def split: option.splits)



lemma open_all_succeeds:
  assumes "filename w \<noteq> ''''" "stream w = None" "closed w"
    and "getFileSize (stat_fault e) (w, wd) = Inr n" "open_fault e = None"
  shows "open_all rt e (w, wd) =
           (Inr (), drain rt (w\<lparr>fileSize := n, stream := Some (WriteStream (filename w)), closed := False\<rparr>,
                              wd\<lparr>files := (files wd)(filename w \<mapsto> [])\<rparr>))"
  using assms by (simp add: open_all_def open_begin_def open_stat_def open_stream_def openStream_def)




subsection \<open>Closing\<close>

lemma close_all_active:
  assumes "\<not> closed w" "stream w = Some st"
  shows "close_all e (w, wd) = close_end e (w\<lparr>closing := True\<rparr>, stream_write st '']}'' wd)"
  using assms by (simp add: close_all_def close_begin_def)

text \<open>
  When the last write or the flush fails, \<^verbatim>\<open>close()\<close> never settles: \<^verbatim>\<open>handleError\<close> has
  set \<^verbatim>\<open>closed\<close> and cleared \<^verbatim>\<open>stream\<close>, a retry is pending, and \<^verbatim>\<open>closing\<close> stays true,
  since the \<^verbatim>\<open>finally\<close> block is never reached.
\<close>

lemma close_all_never_settles:
  assumes "\<not> closed w" "stream w = Some st" "flush_fault e = Some err"
  shows "close_all e (w, wd) = (Never, handleError (w\<lparr>closing := True\<rparr>, stream_write st '']}'' wd))"
    and "closing (fst (snd (close_all e (w, wd))))"
    and "closed (fst (snd (close_all e (w, wd))))"
    and "stream (fst (snd (close_all e (w, wd)))) = None"
    and "timer (fst (snd (close_all e (w, wd)))) \<noteq> None"
  using assms by (simp_all add: close_all_active close_end_def handleError_def retry_def)

lemma close_all_opened_flush_fails:
  "fst (close_all flush_fails (opened_writer, opened_world)) = Never"
  "closing (fst (snd (close_all flush_fails (opened_writer, opened_world))))"
  by (simp_all add: close_all_def close_begin_def close_end_def flush_fails_def no_fault_def
        handleError_def retry_def opened_writer_def fresh_writer_def initial_def)

text \<open>
  C5, as the code has it. Take a \<^verbatim>\<open>close()\<close> on an open writer whose trailing \<^verbatim>\<open>']}'\<close>
  is written and flushed (the stream reaches \<^verbatim>\<open>'finish'\<close>). Whether the close of the
  stream that follows succeeds or fails, \<^verbatim>\<open>closing\<close> is reset to false. When it succeeds,
  \<^verbatim>\<open>close()\<close> returns, \<^verbatim>\<open>closed\<close> becomes true and \<^verbatim>\<open>stream\<close> becomes \<^verbatim>\<open>null\<close>. When it fails,
  the failure is thrown to the caller of \<^verbatim>\<open>close()\<close> and \<^verbatim>\<open>closed\<close> and \<^verbatim>\<open>stream\<close> keep their
  values: the writer is still not closed and still holds the stream.
\<close>

theorem close_resets_closing:
  assumes "\<not> closed w" and "stream w = Some st" and "flush_fault e = None"
  shows "(close_fault e = None \<longrightarrow>
            close_all e (w, wd)
              = (Return, w\<lparr>closing := False, stream := None, closed := True\<rparr>, stream_write st '']}'' wd)) \<and>
         (\<forall>err. close_fault e = Some err \<longrightarrow>
            close_all e (w, wd) = (Throw err, w\<lparr>closing := False\<rparr>, stream_write st '']}'' wd))"
  using assms by (simp add: close_all_active close_end_def)

theorem close_resets_closing_witness:
  "\<not> closed opened_writer \<and> stream opened_writer = Some (WriteStream ''trace.json'') \<and>
   flush_fault no_fault = None \<and> flush_fault close_fails = None \<and>
   close_all no_fault (opened_writer, opened_world)
     = (Return, opened_writer\<lparr>closing := False, stream := None, closed := True\<rparr>,
        stream_write (WriteStream ''trace.json'') '']}'' opened_world) \<and>
   close_all close_fails (opened_writer, opened_world)
     = (Throw (SystemError ''EIO''), opened_writer\<lparr>closing := False\<rparr>,
        stream_write (WriteStream ''trace.json'') '']}'' opened_world)"
proof -
  have pre: "\<not> closed opened_writer" "stream opened_writer = Some (WriteStream ''trace.json'')"
    by (simp_all add: opened_writer_def)
  have g: "flush_fault no_fault = None" "flush_fault close_fails = None"
    by (simp_all add: no_fault_def close_fails_def)
  have f: "close_fault no_fault = None" "close_fault close_fails = Some (SystemError ''EIO'')"
    by (simp_all add: no_fault_def close_fails_def)
  from close_resets_closing [OF pre g(1), of opened_world] f(1)
  have a: "close_all no_fault (opened_writer, opened_world)
     = (Return, opened_writer\<lparr>closing := False, stream := None, closed := True\<rparr>,
        stream_write (WriteStream ''trace.json'') '']}'' opened_world)"
    by blast
  from close_resets_closing [OF pre g(2), of opened_world] f(2)
  have b: "close_all close_fails (opened_writer, opened_world)
     = (Throw (SystemError ''EIO''), opened_writer\<lparr>closing := False\<rparr>,
        stream_write (WriteStream ''trace.json'') '']}'' opened_world)"
    by blast
  from pre g a b show ?thesis by (intro conjI)
qed

text \<open>
  The claim as it was stated fails where \<^verbatim>\<open>closeStream\<close> rejects: after the failed
  \<^verbatim>\<open>close()\<close> of the opened writer, \<^verbatim>\<open>closed\<close> is false and \<^verbatim>\<open>stream\<close> is not \<^verbatim>\<open>null\<close>.
\<close>

theorem close_failure_counterexample:
  "fst (close_all close_fails (opened_writer, opened_world)) = Throw (SystemError ''EIO'') \<and>
   \<not> closing (fst (snd (close_all close_fails (opened_writer, opened_world)))) \<and>
   \<not> closed (fst (snd (close_all close_fails (opened_writer, opened_world)))) \<and>
   stream (fst (snd (close_all close_fails (opened_writer, opened_world)))) \<noteq> None"
  by (simp add: close_all_def close_begin_def close_end_def close_fails_def no_fault_def
        opened_writer_def fresh_writer_def initial_def)

subsection \<open>Rotation\<close>

lemma rotate_all_noop:
  "rotating w \<or> stream w = None \<or> closed w \<Longrightarrow> rotate_all rt e (w, wd) = (Return, w, wd)"
  by (auto simp: rotate_all_def rotate_begin_def)

lemma rotate_begin_active:
  assumes "\<not> rotating w" "stream w = Some st" "\<not> closed w" "filename w \<noteq> ''''"
  shows "rotate_begin (w, wd) = (Await, w\<lparr>rotating := True, closing := True\<rparr>, stream_write st '']}'' wd)"
  using assms by (simp add: rotate_begin_def close_begin_def)

lemma rotate_all_active:
  assumes "\<not> rotating w" "stream w = Some (WriteStream (filename w))" "\<not> closed w"
    and "filename w \<noteq> ''''" "flush_fault e = None" "close_fault e = None" "rename_fault e = None"
  shows "rotate_all rt e (w, wd) =
           settled (open_all rt e
             (w\<lparr>closing := False, stream := None, closed := True, rotating := False,
                 id_seq := id_seq w + 1\<rparr>,
              wd\<lparr>files := ((files wd)(filename w := None))
                             (rotated_name rt w \<mapsto> content wd (filename w) @ '']}'')\<rparr>))"
proof -
  have n: "rotated_name rt (w\<lparr>rotating := True, closing := False, stream := None, closed := True\<rparr>)
             = rotated_name rt w"
    by (simp add: rotated_name_def)
  show ?thesis
    using assms
    by (simp add: rotate_all_def rotate_begin_active rotate_closed_def close_end_def
          rotate_renamed_def bfs_rename_def n)
qed

text \<open>The digits of \<open>show_nat\<close> write the number, so different numbers have different digits.\<close>

lemma digit_value_digit_char: "d < 10 \<Longrightarrow> digit_value (digit_char d) = d"
proof -
  assume "d < 10"
  then have "d = 0 \<or> d = 1 \<or> d = 2 \<or> d = 3 \<or> d = 4 \<or> d = 5 \<or> d = 6 \<or> d = 7 \<or> d = 8 \<or> d = 9"
    by arith
  then show ?thesis
    by (elim disjE) (simp_all add: digit_value_def)
qed

lemma decimal_snoc: "decimal (s @ [c]) = 10 * decimal s + digit_value c"
  by (simp add: decimal_def)

lemma decimal_show_nat: "decimal (show_nat n) = n"
proof (induction n rule: show_nat.induct)
  case (1 n)
  show ?case
  proof (cases "n < 10")
    case True
    then have "show_nat n = [digit_char n]" by (subst show_nat.simps) simp
    with True show ?thesis
      using decimal_snoc [of "[]" "digit_char n"]
      by (simp add: digit_value_digit_char decimal_def del: digit_char.simps)
  next
    case False
    then have s: "show_nat n = show_nat (n div 10) @ [digit_char (n mod 10)]"
      by (subst show_nat.simps) simp
    have "decimal (show_nat n) = 10 * decimal (show_nat (n div 10)) + digit_value (digit_char (n mod 10))"
      unfolding s by (rule decimal_snoc)
    also have "\<dots> = 10 * (n div 10) + n mod 10"
      using "1.IH" [OF False] by (simp add: digit_value_digit_char del: digit_char.simps)
    finally show ?thesis by simp
  qed
qed

lemma show_nat_inj: "show_nat m = show_nat n \<longleftrightarrow> m = n"
  by (metis decimal_show_nat)

lemma file_part_inj: "file_part rt f i = file_part rt f j \<longleftrightarrow> i = j"
  by (simp add: file_part_def show_nat_inj)

lemma file_part_not_plain: "file_part rt f i \<noteq> basename rt f (extname rt f) @ extname rt f"
  by (simp add: file_part_def)

lemma rotated_name_file_part:
  "rotated_name rt w = join rt (dirname rt (filename w)) (file_part rt (filename w) (id_seq w))"
  by (simp add: rotated_name_def file_part_def Let_def)

lemma names_apart:
  assumes "decomposes rt f"
  shows "join rt (dirname rt f) (file_part rt f i) \<noteq> f"
    and "join rt (dirname rt f) (file_part rt f i) = join rt (dirname rt f) (file_part rt f j) \<longleftrightarrow> i = j"
proof -
  let ?plain = "basename rt f (extname rt f) @ extname rt f"
  let ?S = "insert ?plain (range (file_part rt f))"
  from assms have whole: "join rt (dirname rt f) ?plain = f"
    and inj: "inj_on (join rt (dirname rt f)) ?S"
    unfolding decomposes_def by blast+
  have mem: "\<And>k. file_part rt f k \<in> ?S" "?plain \<in> ?S" by simp_all
  show "join rt (dirname rt f) (file_part rt f i) \<noteq> f"
  proof
    assume "join rt (dirname rt f) (file_part rt f i) = f"
    with whole have "join rt (dirname rt f) (file_part rt f i) = join rt (dirname rt f) ?plain"
      by simp
    then have "file_part rt f i = ?plain" by (rule inj_onD [OF inj _ mem(1) mem(2)])
    with file_part_not_plain show False by blast
  qed
  show "join rt (dirname rt f) (file_part rt f i) = join rt (dirname rt f) (file_part rt f j) \<longleftrightarrow> i = j"
  proof
    assume "join rt (dirname rt f) (file_part rt f i) = join rt (dirname rt f) (file_part rt f j)"
    then have "file_part rt f i = file_part rt f j" by (rule inj_onD [OF inj _ mem(1) mem(1)])
    then show "i = j" by (simp add: file_part_inj)
  next
    assume "i = j"
    then show "join rt (dirname rt f) (file_part rt f i) = join rt (dirname rt f) (file_part rt f j)"
      by simp
  qed
qed

text \<open>
  One whole rotation of a writer that is open and has nothing buffered, and \<open>n\<close> of them
  in a row: each leaves the writer open again, with nothing buffered and the next id.
\<close>

lemma rotate_all_idle:
  assumes "\<not> rotating w" "stream w = Some (WriteStream (filename w))" "\<not> closed w"
    and "filename w \<noteq> []" "bufferedEntries w = []"
    and "rotated_name rt w \<noteq> filename w"
  shows "rotate_all rt no_fault (w, wd) =
           (Return,
            w\<lparr>closing := False, rotating := False, id_seq := Suc (id_seq w), fileSize := Fin 0,
               stream := Some (WriteStream (filename w)), closed := False\<rparr>,
            wd\<lparr>files := (files wd)(filename w \<mapsto> [],
                            rotated_name rt w \<mapsto> content wd (filename w) @ '']}'')\<rparr>)"
proof -
  have io: "flush_fault no_fault = None" "close_fault no_fault = None" "rename_fault no_fault = None"
    by (simp_all add: no_fault_def)
  show ?thesis
    unfolding rotate_all_active [OF assms(1-4) io]
    using assms
    by (simp add: settled_def open_all_def open_begin_def open_stat_def getFileSize_cases
          open_stream_def openStream_def no_fault_def drain_empty fun_upd_twist)
qed

lemma rotations_idle:
  assumes "\<not> rotating w" "stream w = Some (WriteStream f)" "\<not> closed w" "f \<noteq> []"
    and "bufferedEntries w = []" "filename w = f" "decomposes rt f"
    and "rotations rt n (w, wd) = (w', wd')"
  shows "\<not> rotating w' \<and> stream w' = Some (WriteStream f) \<and> \<not> closed w' \<and> bufferedEntries w' = [] \<and>
         filename w' = f \<and> id_seq w' = id_seq w + n \<and>
         (\<forall>i<n. files wd' (join rt (dirname rt f) (file_part rt f (id_seq w + i)))
                   = Some (if i = 0 then content wd f @ '']}'' else '']}'')) \<and>
         (0 < n \<longrightarrow> files wd' f = Some []) \<and>
         (\<forall>q. q \<noteq> f \<and> (\<forall>i<n. q \<noteq> join rt (dirname rt f) (file_part rt f (id_seq w + i)))
                \<longrightarrow> files wd' q = files wd q)"
  using assms
proof (induction n arbitrary: w wd)
  case 0
  then show ?case by simp
next
  case (Suc n)
  let ?name = "\<lambda>i. join rt (dirname rt f) (file_part rt f i)"
  let ?w1 = "w\<lparr>closing := False, rotating := False, id_seq := Suc (id_seq w), fileSize := Fin 0,
               stream := Some (WriteStream (filename w)), closed := False\<rparr>"
  let ?wd1 = "wd\<lparr>files := (files wd)(filename w \<mapsto> [],
                            rotated_name rt w \<mapsto> content wd (filename w) @ '']}'')\<rparr>"
  note apart = names_apart [OF Suc.prems(7)]
  have nm: "rotated_name rt w = ?name (id_seq w)"
    using Suc.prems(6) by (simp add: rotated_name_file_part)
  have ne: "rotated_name rt w \<noteq> filename w"
    using apart(1) nm Suc.prems(6) by simp
  have one: "rotate_all rt no_fault (w, wd) = (Return, ?w1, ?wd1)"
    using Suc.prems(1-6) ne by (intro rotate_all_idle) simp_all
  have run: "rotations rt n (?w1, ?wd1) = (w', wd')"
    using Suc.prems(8) one by simp
  have ih: "\<not> rotating w' \<and> stream w' = Some (WriteStream f) \<and> \<not> closed w' \<and> bufferedEntries w' = [] \<and>
         filename w' = f \<and> id_seq w' = id_seq ?w1 + n \<and>
         (\<forall>i<n. files wd' (?name (id_seq ?w1 + i))
                   = Some (if i = 0 then content ?wd1 f @ '']}'' else '']}'')) \<and>
         (0 < n \<longrightarrow> files wd' f = Some []) \<and>
         (\<forall>q. q \<noteq> f \<and> (\<forall>i<n. q \<noteq> ?name (id_seq ?w1 + i)) \<longrightarrow> files wd' q = files ?wd1 q)"
    using Suc.prems(2-7) by (intro Suc.IH [OF _ _ _ _ _ _ _ run]) simp_all
  have c1: "content ?wd1 f = []"
    using Suc.prems(6) ne by (auto simp: content_def)
  have later: "\<And>i. i < n \<Longrightarrow> files wd' (?name (id_seq w + Suc i)) = Some '']}''"
    using ih c1 by simp
  have frame: "\<And>q. q \<noteq> f \<Longrightarrow> (\<forall>i<n. q \<noteq> ?name (id_seq w + Suc i)) \<Longrightarrow> files wd' q = files ?wd1 q"
    using ih by simp
  have first: "files wd' (?name (id_seq w)) = Some (content wd f @ '']}'')"
  proof -
    have "files wd' (?name (id_seq w)) = files ?wd1 (?name (id_seq w))"
      by (rule frame) (simp_all add: apart)
    then show ?thesis using nm Suc.prems(6) by simp
  qed
  have all: "\<forall>i<Suc n. files wd' (?name (id_seq w + i))
                   = Some (if i = 0 then content wd f @ '']}'' else '']}'')"
  proof (intro allI impI)
    fix i assume "i < Suc n"
    show "files wd' (?name (id_seq w + i)) = Some (if i = 0 then content wd f @ '']}'' else '']}'')"
    proof (cases i)
      case 0
      then show ?thesis using first by simp
    next
      case (Suc k)
      with \<open>i < Suc n\<close> have "k < n" by simp
      then show ?thesis using later [of k] Suc by simp
    qed
  qed
  have active_file: "files wd' f = Some []"
  proof (cases n)
    case 0
    with run have "wd' = ?wd1" by simp
    then show ?thesis using Suc.prems(6) ne by auto
  next
    case (Suc k)
    then show ?thesis using ih by simp
  qed
  have others: "\<forall>q. q \<noteq> f \<and> (\<forall>i<Suc n. q \<noteq> ?name (id_seq w + i)) \<longrightarrow> files wd' q = files wd q"
  proof (intro allI impI)
    fix q assume q: "q \<noteq> f \<and> (\<forall>i<Suc n. q \<noteq> ?name (id_seq w + i))"
    then have q0: "q \<noteq> ?name (id_seq w)" by (metis add.right_neutral zero_less_Suc)
    from q have "\<forall>i<n. q \<noteq> ?name (id_seq w + Suc i)" by (metis Suc_less_eq)
    with q have "files wd' q = files ?wd1 q" by (intro frame) simp_all
    also have "\<dots> = files wd q" using q q0 nm Suc.prems(6) by simp
    finally show "files wd' q = files wd q" .
  qed
  from ih all active_file others show ?case by simp
qed

text \<open>
  C7. \<^verbatim>\<open>rotate()\<close> returns at once, changing nothing, when the writer is rotating, has no
  stream or is closed. Otherwise it sets \<^verbatim>\<open>rotating\<close> before its first await (so that a
  second call during the rotation is the no-op above) and, when the close and the
  rename succeed: \<^verbatim>\<open>']}'\<close> is written once, the file moves to the rotated name, \<^verbatim>\<open>id\<close>
  grows by one, \<^verbatim>\<open>rotating\<close> is cleared and \<^verbatim>\<open>open()\<close> is called, whose outcome is the
  outcome of \<^verbatim>\<open>rotate()\<close>.

  The rotated name is the join of the directory of the file with
  \<^verbatim>\<open>base + '.' + id + ext\<close>, where the id is written in decimal digits that read back
  as the id; two ids give the same such file name only when they are equal. Where the
  path functions decompose the path of the file, the rotated name is not the path of
  the active file, and writers on the same file have the same rotated name only for
  the same id. Then \<open>n\<close> rotations in a row of an open writer with nothing buffered end
  with the id grown by \<open>n\<close> and one file for each id from the first on, none skipped and
  none used twice: the first holds the old content closed by \<^verbatim>\<open>']}'\<close>, the others
  \<^verbatim>\<open>']}'\<close> alone.
\<close>

theorem rotate_once:
  "(rotating w \<or> stream w = None \<or> closed w \<longrightarrow> rotate_all rt e (w, wd) = (Return, w, wd)) \<and>
   (\<not> rotating w \<and> stream w = Some (WriteStream (filename w)) \<and> \<not> closed w \<and> filename w \<noteq> ''''
      \<longrightarrow> rotating (fst (snd (rotate_begin (w, wd)))) \<and>
          (flush_fault e = None \<and> close_fault e = None \<and> rename_fault e = None \<longrightarrow>
             rotate_all rt e (w, wd) =
               settled (open_all rt e
                 (w\<lparr>closing := False, stream := None, closed := True, rotating := False,
                     id_seq := id_seq w + 1\<rparr>,
                  wd\<lparr>files := ((files wd)(filename w := None))
                                 (rotated_name rt w \<mapsto> content wd (filename w) @ '']}'')\<rparr>)))) \<and>
   rotated_name rt w =
     join rt (dirname rt (filename w))
       (basename rt (filename w) (extname rt (filename w)) @ ''.'' @ show_nat (id_seq w)
          @ extname rt (filename w)) \<and>
   decimal (show_nat (id_seq w)) = id_seq w \<and>
   (file_part rt (filename w) i = file_part rt (filename w) j \<longleftrightarrow> i = j) \<and>
   (decomposes rt (filename w) \<longrightarrow>
      rotated_name rt w \<noteq> filename w \<and>
      (rotated_name rt (w\<lparr>id_seq := j\<rparr>) = rotated_name rt w \<longleftrightarrow> j = id_seq w)) \<and>
   (\<not> rotating w \<and> stream w = Some (WriteStream (filename w)) \<and> \<not> closed w \<and> filename w \<noteq> ''''
      \<and> bufferedEntries w = [] \<and> decomposes rt (filename w) \<longrightarrow>
      id_seq (fst (rotations rt n (w, wd))) = id_seq w + n \<and>
      \<not> rotating (fst (rotations rt n (w, wd))) \<and>
      stream (fst (rotations rt n (w, wd))) = Some (WriteStream (filename w)) \<and>
      (\<forall>k<n. files (snd (rotations rt n (w, wd))) (rotated_name rt (w\<lparr>id_seq := id_seq w + k\<rparr>))
                = Some (if k = 0 then content wd (filename w) @ '']}'' else '']}'')))"
proof (intro conjI impI)
  assume "rotating w \<or> stream w = None \<or> closed w"
  then show "rotate_all rt e (w, wd) = (Return, w, wd)" by (rule rotate_all_noop)
next
  assume "\<not> rotating w \<and> stream w = Some (WriteStream (filename w)) \<and> \<not> closed w \<and> filename w \<noteq> ''''"
  then show "rotating (fst (snd (rotate_begin (w, wd))))"
    by (simp add: rotate_begin_active)
next
  assume "\<not> rotating w \<and> stream w = Some (WriteStream (filename w)) \<and> \<not> closed w \<and> filename w \<noteq> ''''"
    and "flush_fault e = None \<and> close_fault e = None \<and> rename_fault e = None"
  then show "rotate_all rt e (w, wd) =
               settled (open_all rt e
                 (w\<lparr>closing := False, stream := None, closed := True, rotating := False,
                     id_seq := id_seq w + 1\<rparr>,
                  wd\<lparr>files := ((files wd)(filename w := None))
                                 (rotated_name rt w \<mapsto> content wd (filename w) @ '']}'')\<rparr>))"
    by (intro rotate_all_active) simp_all
next
  show "rotated_name rt w =
     join rt (dirname rt (filename w))
       (basename rt (filename w) (extname rt (filename w)) @ ''.'' @ show_nat (id_seq w)
          @ extname rt (filename w))"
    by (simp add: rotated_name_def Let_def)
next
  show "decimal (show_nat (id_seq w)) = id_seq w" by (rule decimal_show_nat)
next
  show "file_part rt (filename w) i = file_part rt (filename w) j \<longleftrightarrow> i = j"
    by (rule file_part_inj)
next
  assume d: "decomposes rt (filename w)"
  show "rotated_name rt w \<noteq> filename w"
    using names_apart(1) [OF d] by (simp add: rotated_name_file_part)
  show "rotated_name rt (w\<lparr>id_seq := j\<rparr>) = rotated_name rt w \<longleftrightarrow> j = id_seq w"
    using names_apart(2) [OF d] by (simp add: rotated_name_file_part)
next
  assume h: "\<not> rotating w \<and> stream w = Some (WriteStream (filename w)) \<and> \<not> closed w \<and> filename w \<noteq> ''''
      \<and> bufferedEntries w = [] \<and> decomposes rt (filename w)"
  obtain w' wd' where run: "rotations rt n (w, wd) = (w', wd')" by (metis surj_pair)
  from h have r: "\<not> rotating w' \<and> stream w' = Some (WriteStream (filename w)) \<and> \<not> closed w' \<and>
         bufferedEntries w' = [] \<and> filename w' = filename w \<and> id_seq w' = id_seq w + n \<and>
         (\<forall>i<n. files wd' (join rt (dirname rt (filename w)) (file_part rt (filename w) (id_seq w + i)))
                   = Some (if i = 0 then content wd (filename w) @ '']}'' else '']}'')) \<and>
         (0 < n \<longrightarrow> files wd' (filename w) = Some []) \<and>
         (\<forall>q. q \<noteq> filename w \<and>
               (\<forall>i<n. q \<noteq> join rt (dirname rt (filename w)) (file_part rt (filename w) (id_seq w + i)))
                \<longrightarrow> files wd' q = files wd q)"
    by (intro rotations_idle [OF _ _ _ _ _ _ _ run]) simp_all
  show "id_seq (fst (rotations rt n (w, wd))) = id_seq w + n"
    and "\<not> rotating (fst (rotations rt n (w, wd)))"
    and "stream (fst (rotations rt n (w, wd))) = Some (WriteStream (filename w))"
    using r by (simp_all add: run)
  show "\<forall>k<n. files (snd (rotations rt n (w, wd))) (rotated_name rt (w\<lparr>id_seq := id_seq w + k\<rparr>))
                = Some (if k = 0 then content wd (filename w) @ '']}'' else '']}'')"
    using r by (simp add: run rotated_name_file_part)
qed

lemma rotated_name_plain: "rotated_name plain_runtime opened_writer = ''trace.0.json''"
  by (simp add: rotated_name_def plain_runtime_def opened_writer_def fresh_writer_def initial_def
        plain_extname_def plain_basename_def show_nat.simps)

lemma decomposes_plain: "decomposes plain_runtime ''trace.json''"
  by (simp add: decomposes_def plain_runtime_def plain_extname_def plain_basename_def inj_on_def)

text \<open>
  On the opened writer: a call while rotating changes nothing; a rotation leaves
  \<^verbatim>\<open>trace.0.json\<close> holding \<^verbatim>\<open>']}'\<close>, a new empty \<^verbatim>\<open>trace.json\<close>, \<^verbatim>\<open>id = 1\<close> and an open
  stream; two rotations leave \<^verbatim>\<open>trace.0.json\<close> and \<^verbatim>\<open>trace.1.json\<close> and \<^verbatim>\<open>id = 2\<close>. With
  the id 12 the rotated name is \<^verbatim>\<open>trace.12.json\<close>.
\<close>

theorem rotate_once_witness:
  "rotate_all plain_runtime no_fault (opened_writer\<lparr>rotating := True\<rparr>, opened_world)
     = (Return, opened_writer\<lparr>rotating := True\<rparr>, opened_world) \<and>
   \<not> rotating opened_writer \<and> stream opened_writer = Some (WriteStream (filename opened_writer)) \<and>
   \<not> closed opened_writer \<and> filename opened_writer \<noteq> '''' \<and> bufferedEntries opened_writer = [] \<and>
   flush_fault no_fault = None \<and> close_fault no_fault = None \<and> rename_fault no_fault = None \<and>
   decomposes plain_runtime (filename opened_writer) \<and>
   rotating (fst (snd (rotate_begin (opened_writer, opened_world)))) \<and>
   fst (rotate_all plain_runtime no_fault (opened_writer, opened_world)) = Return \<and>
   fst (snd (rotate_all plain_runtime no_fault (opened_writer, opened_world)))
     = opened_writer\<lparr>id_seq := 1\<rparr> \<and>
   files (snd (snd (rotate_all plain_runtime no_fault (opened_writer, opened_world)))) ''trace.0.json''
     = Some '']}'' \<and>
   files (snd (snd (rotate_all plain_runtime no_fault (opened_writer, opened_world)))) ''trace.json''
     = Some [] \<and>
   rotated_name plain_runtime opened_writer = ''trace.0.json'' \<and>
   rotated_name plain_runtime opened_writer \<noteq> filename opened_writer \<and>
   rotated_name plain_runtime (opened_writer\<lparr>id_seq := 12\<rparr>) = ''trace.12.json'' \<and>
   decimal (show_nat (id_seq (opened_writer\<lparr>id_seq := 12\<rparr>))) = 12 \<and>
   decimal ''12'' = 12 \<and>
   id_seq (fst (rotations plain_runtime 2 (opened_writer, opened_world))) = 2 \<and>
   files (snd (rotations plain_runtime 2 (opened_writer, opened_world))) ''trace.0.json'' = Some '']}'' \<and>
   files (snd (rotations plain_runtime 2 (opened_writer, opened_world))) ''trace.1.json'' = Some '']}''"
proof -
  have pre: "\<not> rotating opened_writer \<and> stream opened_writer = Some (WriteStream (filename opened_writer)) \<and>
     \<not> closed opened_writer \<and> filename opened_writer \<noteq> ''''"
    by (simp add: opened_writer_def fresh_writer_def initial_def)
  have buf: "bufferedEntries opened_writer = []"
    by (simp add: opened_writer_def fresh_writer_def initial_def)
  have fn: "filename opened_writer = ''trace.json''" "id_seq opened_writer = 0"
    by (simp_all add: opened_writer_def fresh_writer_def initial_def)
  have io: "flush_fault no_fault = None \<and> close_fault no_fault = None \<and> rename_fault no_fault = None"
    by (simp add: no_fault_def)
  have dec: "decomposes plain_runtime (filename opened_writer)"
    using decomposes_plain by (simp add: fn)
  have rot: "rotating (opened_writer\<lparr>rotating := True\<rparr>) \<or> stream (opened_writer\<lparr>rotating := True\<rparr>) = None
      \<or> closed (opened_writer\<lparr>rotating := True\<rparr>)"
    by simp
  from rotate_once [of "opened_writer\<lparr>rotating := True\<rparr>" plain_runtime no_fault opened_world] rot
  have a: "rotate_all plain_runtime no_fault (opened_writer\<lparr>rotating := True\<rparr>, opened_world)
     = (Return, opened_writer\<lparr>rotating := True\<rparr>, opened_world)"
    by blast
  note r = rotate_once [of opened_writer plain_runtime no_fault opened_world _ _ 2]
  from r pre have b: "rotating (fst (snd (rotate_begin (opened_writer, opened_world))))"
    by blast
  from r pre io have c: "rotate_all plain_runtime no_fault (opened_writer, opened_world) =
       settled (open_all plain_runtime no_fault
         (opened_writer\<lparr>closing := False, stream := None, closed := True, rotating := False,
             id_seq := id_seq opened_writer + 1\<rparr>,
          opened_world\<lparr>files := ((files opened_world)(filename opened_writer := None))
             (rotated_name plain_runtime opened_writer \<mapsto> content opened_world (filename opened_writer) @ '']}'')\<rparr>))"
    by blast
  have d: "settled (open_all plain_runtime no_fault
         (opened_writer\<lparr>closing := False, stream := None, closed := True, rotating := False,
             id_seq := id_seq opened_writer + 1\<rparr>,
          opened_world\<lparr>files := ((files opened_world)(filename opened_writer := None))
             (rotated_name plain_runtime opened_writer \<mapsto> content opened_world (filename opened_writer) @ '']}'')\<rparr>))
       = (Return, opened_writer\<lparr>id_seq := 1\<rparr>,
          \<lparr> files = ((\<lambda>p. None)(''trace.0.json'' \<mapsto> '']}''))(''trace.json'' \<mapsto> []), timers = [] \<rparr>)"
    by (simp add: rotated_name_plain)
       (simp add: settled_def open_all_def open_begin_def open_stat_def open_stream_def
          getFileSize_def bfs_stat_def openStream_def no_fault_def drain_empty content_def
          opened_writer_def opened_world_def fresh_writer_def initial_def)
  from c d have e: "rotate_all plain_runtime no_fault (opened_writer, opened_world)
       = (Return, opened_writer\<lparr>id_seq := 1\<rparr>,
          \<lparr> files = ((\<lambda>p. None)(''trace.0.json'' \<mapsto> '']}''))(''trace.json'' \<mapsto> []), timers = [] \<rparr>)"
    by simp
  from r dec have ne: "rotated_name plain_runtime opened_writer \<noteq> filename opened_writer"
    by blast
  have n12: "rotated_name plain_runtime (opened_writer\<lparr>id_seq := 12\<rparr>) = ''trace.12.json''"
    by code_simp
  from rotate_once [of "opened_writer\<lparr>id_seq := 12\<rparr>" plain_runtime no_fault opened_world]
  have d12: "decimal (show_nat (id_seq (opened_writer\<lparr>id_seq := 12\<rparr>))) = id_seq (opened_writer\<lparr>id_seq := 12\<rparr>)"
    by blast
  then have d12': "decimal (show_nat (id_seq (opened_writer\<lparr>id_seq := 12\<rparr>))) = 12" by simp
  have s12: "decimal ''12'' = 12" by code_simp
  from r pre buf dec
  have two: "id_seq (fst (rotations plain_runtime 2 (opened_writer, opened_world))) = id_seq opened_writer + 2"
    and files2: "\<forall>k<2. files (snd (rotations plain_runtime 2 (opened_writer, opened_world)))
                   (rotated_name plain_runtime (opened_writer\<lparr>id_seq := id_seq opened_writer + k\<rparr>))
                = Some (if k = 0 then content opened_world (filename opened_writer) @ '']}'' else '']}'')"
    by blast+
  have nm0: "rotated_name plain_runtime (opened_writer\<lparr>id_seq := id_seq opened_writer + 0\<rparr>) = ''trace.0.json''"
    and nm1: "rotated_name plain_runtime (opened_writer\<lparr>id_seq := id_seq opened_writer + 1\<rparr>) = ''trace.1.json''"
    by code_simp+
  have c0: "content opened_world (filename opened_writer) = []" by code_simp
  have f0: "files (snd (rotations plain_runtime 2 (opened_writer, opened_world))) ''trace.0.json'' = Some '']}''"
    using files2 [THEN spec, of 0] nm0 c0 by simp
  have f1: "files (snd (rotations plain_runtime 2 (opened_writer, opened_world))) ''trace.1.json'' = Some '']}''"
    using files2 [THEN spec, of 1] nm1 by simp
  from two have two': "id_seq (fst (rotations plain_runtime 2 (opened_writer, opened_world))) = 2"
    by (simp add: fn)
  show ?thesis
    using a pre buf io dec b rotated_name_plain ne n12 d12' s12 two' f0 f1 by (simp add: e)
qed

subsection \<open>Buffering and rejection of writes\<close>

lemma open_begin_ok:
  "filename w \<noteq> '''' \<Longrightarrow> stream w = None \<Longrightarrow> closed w \<Longrightarrow> open_begin (w, wd) = (Await, w, wd)"
  by (simp add: open_begin_def)

text \<open>
  C1, as the code has it. \<^verbatim>\<open>writeTrace(record)\<close> appends the record to the buffer and
  returns true exactly when \<^verbatim>\<open>rotating\<close> is true. When the writer is not rotating and has
  no stream, or a close is in flight, it returns false and neither buffers nor writes.
  Otherwise it writes the record to the stream at once and returns true. In particular
  two calls made while a first \<^verbatim>\<open>open()\<close> is pending (no stream, not rotating) both return
  false and change nothing, so that the \<^verbatim>\<open>open()\<close> ends as it would have without them:
  with an empty buffer and, when the stream opens, an empty file.
\<close>

theorem writeTrace_buffers_iff_rotating:
  "(rotating w \<longrightarrow>
      writeTrace rt r (w, wd) = (True, w\<lparr>bufferedEntries := bufferedEntries w @ [r]\<rparr>, wd)) \<and>
   (\<not> rotating w \<and> (stream w = None \<or> closing w) \<longrightarrow> writeTrace rt r (w, wd) = (False, w, wd)) \<and>
   (\<not> rotating w \<and> stream w = Some (WriteStream p) \<and> \<not> closing w \<longrightarrow>
      fst (writeTrace rt r (w, wd)) \<and>
      bufferedEntries (fst (snd (writeTrace rt r (w, wd)))) = bufferedEntries w \<and>
      content (snd (snd (writeTrace rt r (w, wd)))) p =
        content wd p @ entries_text rt (firstEntry w) [r]
          @ (if closing (fst (snd (writeTrace rt r (w, wd)))) then '']}'' else [])) \<and>
   (\<not> rotating w \<and> stream w = None \<and> closed w \<and> filename w \<noteq> '''' \<and> bufferedEntries w = [] \<longrightarrow>
      open_begin (w, wd) = (Await, w, wd) \<and>
      writeTrace rt r (w, wd) = (False, w, wd) \<and>
      writeTrace rt r' (snd (writeTrace rt r (w, wd))) = (False, w, wd) \<and>
      bufferedEntries (fst (open_stream rt no_fault (snd (open_stat no_fault (w, wd))))) = [] \<and>
      files (snd (open_stream rt no_fault (snd (open_stat no_fault (w, wd))))) (filename w) = Some [])"
proof (intro conjI impI)
  assume "rotating w"
  then show "writeTrace rt r (w, wd) = (True, w\<lparr>bufferedEntries := bufferedEntries w @ [r]\<rparr>, wd)"
    by (rule writeTrace_rotating)
next
  assume "\<not> rotating w \<and> (stream w = None \<or> closing w)"
  then show "writeTrace rt r (w, wd) = (False, w, wd)"
    by (intro writeTrace_rejected) simp_all
next
  assume h: "\<not> rotating w \<and> stream w = Some (WriteStream p) \<and> \<not> closing w"
  obtain b w' wd' where wt: "writeTrace rt r (w, wd) = (b, w', wd')"
    by (metis prod_cases3)
  from h have pre: "\<not> rotating w" "stream w = Some (WriteStream p)" "\<not> closing w" by simp_all
  note d = writeTrace_direct [OF pre wt]
  show "fst (writeTrace rt r (w, wd))" using d(1) wt by simp
  show "bufferedEntries (fst (snd (writeTrace rt r (w, wd)))) = bufferedEntries w"
    using d(2) wt by simp
  show "content (snd (snd (writeTrace rt r (w, wd)))) p =
        content wd p @ entries_text rt (firstEntry w) [r]
          @ (if closing (fst (snd (writeTrace rt r (w, wd)))) then '']}'' else [])"
    using d(8) wt by simp
next
  assume h: "\<not> rotating w \<and> stream w = None \<and> closed w \<and> filename w \<noteq> '''' \<and> bufferedEntries w = []"
  then show "open_begin (w, wd) = (Await, w, wd)" by (simp add: open_begin_ok)
  from h have rej: "\<And>x. writeTrace rt x (w, wd) = (False, w, wd)"
    by (intro writeTrace_rejected) simp_all
  show "writeTrace rt r (w, wd) = (False, w, wd)" by (rule rej)
  show "writeTrace rt r' (snd (writeTrace rt r (w, wd))) = (False, w, wd)" by (simp add: rej)
  have st: "snd (open_stat no_fault (w, wd)) =
      (w\<lparr>fileSize := (case files wd (filename w) of None \<Rightarrow> Fin 0 | Some c \<Rightarrow> Fin (of_nat (length c)))\<rparr>, wd)"
    by (simp add: open_stat_def getFileSize_cases no_fault_def split: option.splits)
  from h have os: "open_stream rt no_fault (snd (open_stat no_fault (w, wd))) =
      (w\<lparr>fileSize := (case files wd (filename w) of None \<Rightarrow> Fin 0 | Some c \<Rightarrow> Fin (of_nat (length c))),
          stream := Some (WriteStream (filename w)), closed := False\<rparr>,
       wd\<lparr>files := (files wd)(filename w \<mapsto> [])\<rparr>)"
    unfolding st by (simp add: open_stream_def openStream_def no_fault_def drain_empty)
  show "bufferedEntries (fst (open_stream rt no_fault (snd (open_stat no_fault (w, wd))))) = []"
    unfolding os using h by simp
  show "files (snd (open_stream rt no_fault (snd (open_stat no_fault (w, wd))))) (filename w) = Some []"
    unfolding os by simp
qed

text \<open>
  On the new writer, whose \<^verbatim>\<open>open()\<close> is pending, for the two records of a begin and an
  end event; and on the opened writer, rotating or not.
\<close>

theorem writeTrace_buffers_iff_rotating_witness:
  "\<not> rotating fresh_writer \<and> stream fresh_writer = None \<and> closed fresh_writer \<and>
   filename fresh_writer \<noteq> '''' \<and> bufferedEntries fresh_writer = [] \<and>
   open_begin (fresh_writer, empty_world) = (Await, fresh_writer, empty_world) \<and>
   writeTrace plain_runtime (markTrace 1 0 ''a'' ''B'') (fresh_writer, empty_world)
     = (False, fresh_writer, empty_world) \<and>
   writeTrace plain_runtime (markTrace 1 5 ''a'' ''E'')
       (snd (writeTrace plain_runtime (markTrace 1 0 ''a'' ''B'') (fresh_writer, empty_world)))
     = (False, fresh_writer, empty_world) \<and>
   files (snd (open_stream plain_runtime no_fault (snd (open_stat no_fault (fresh_writer, empty_world)))))
       ''trace.json'' = Some [] \<and>
   rotating (opened_writer\<lparr>rotating := True\<rparr>) \<and>
   writeTrace plain_runtime (markTrace 1 0 ''a'' ''B'') (opened_writer\<lparr>rotating := True\<rparr>, opened_world)
     = (True, opened_writer\<lparr>rotating := True, bufferedEntries := [markTrace 1 0 ''a'' ''B'']\<rparr>, opened_world) \<and>
   \<not> rotating opened_writer \<and> stream opened_writer = Some (WriteStream ''trace.json'') \<and>
   \<not> closing opened_writer \<and>
   fst (writeTrace plain_runtime (markTrace 1 0 ''a'' ''B'') (opened_writer, opened_world)) \<and>
   content (snd (snd (writeTrace plain_runtime (markTrace 1 0 ''a'' ''B'') (opened_writer, opened_world))))
       ''trace.json''
     = trace_prefix @ plain_stringify (markTrace 1 0 ''a'' ''B'')"
proof -
  have f: "\<not> rotating fresh_writer \<and> stream fresh_writer = None \<and> closed fresh_writer \<and>
     filename fresh_writer \<noteq> '''' \<and> bufferedEntries fresh_writer = []"
    by (simp add: fresh_writer_def initial_def)
  have fn: "filename fresh_writer = ''trace.json''" by (simp add: fresh_writer_def)
  note a = writeTrace_buffers_iff_rotating [of fresh_writer plain_runtime "markTrace 1 0 ''a'' ''B''"
      empty_world _ "markTrace 1 5 ''a'' ''E''"]
  from a f have a1: "open_begin (fresh_writer, empty_world) = (Await, fresh_writer, empty_world)"
    and a2: "writeTrace plain_runtime (markTrace 1 0 ''a'' ''B'') (fresh_writer, empty_world)
       = (False, fresh_writer, empty_world)"
    and a3: "writeTrace plain_runtime (markTrace 1 5 ''a'' ''E'')
       (snd (writeTrace plain_runtime (markTrace 1 0 ''a'' ''B'') (fresh_writer, empty_world)))
       = (False, fresh_writer, empty_world)"
    and a4: "files (snd (open_stream plain_runtime no_fault (snd (open_stat no_fault (fresh_writer, empty_world)))))
       (filename fresh_writer) = Some []"
    by blast+
  have r: "rotating (opened_writer\<lparr>rotating := True\<rparr>)" by simp
  from writeTrace_buffers_iff_rotating [of "opened_writer\<lparr>rotating := True\<rparr>" plain_runtime
      "markTrace 1 0 ''a'' ''B''" opened_world] r
  have "writeTrace plain_runtime (markTrace 1 0 ''a'' ''B'') (opened_writer\<lparr>rotating := True\<rparr>, opened_world)
     = (True, opened_writer\<lparr>rotating := True\<rparr>
          \<lparr>bufferedEntries := bufferedEntries (opened_writer\<lparr>rotating := True\<rparr>) @ [markTrace 1 0 ''a'' ''B'']\<rparr>,
        opened_world)"
    by blast
  then have b1: "writeTrace plain_runtime (markTrace 1 0 ''a'' ''B'') (opened_writer\<lparr>rotating := True\<rparr>, opened_world)
     = (True, opened_writer\<lparr>rotating := True, bufferedEntries := [markTrace 1 0 ''a'' ''B'']\<rparr>, opened_world)"
    by (simp add: opened_writer_def fresh_writer_def initial_def)
  have o: "\<not> rotating opened_writer \<and> stream opened_writer = Some (WriteStream ''trace.json'') \<and>
     \<not> closing opened_writer"
    by (simp add: opened_writer_def fresh_writer_def initial_def)
  have fe: "firstEntry opened_writer" "content opened_world ''trace.json'' = []"
      "maxFileSize opened_writer = Fin 100000000" "fileSize opened_writer = Fin 0"
    by (simp_all add: opened_writer_def fresh_writer_def initial_def opened_world_def content_def)
  have nocl: "\<not> closing (fst (snd (writeTrace plain_runtime (markTrace 1 0 ''a'' ''B'') (opened_writer, opened_world))))"
    using o fe by (simp add: writeTrace_def Let_def markTrace_def get_prop_def)
  from writeTrace_buffers_iff_rotating [of opened_writer plain_runtime "markTrace 1 0 ''a'' ''B''"
      opened_world "''trace.json''"] o
  have c1: "fst (writeTrace plain_runtime (markTrace 1 0 ''a'' ''B'') (opened_writer, opened_world))"
    and c2: "content (snd (snd (writeTrace plain_runtime (markTrace 1 0 ''a'' ''B'') (opened_writer, opened_world))))
       ''trace.json''
     = content opened_world ''trace.json'' @ entries_text plain_runtime (firstEntry opened_writer) [markTrace 1 0 ''a'' ''B'']
          @ (if closing (fst (snd (writeTrace plain_runtime (markTrace 1 0 ''a'' ''B'') (opened_writer, opened_world))))
             then '']}'' else [])"
    by blast+
  from c2 nocl fe have c3: "content (snd (snd (writeTrace plain_runtime (markTrace 1 0 ''a'' ''B'') (opened_writer, opened_world))))
       ''trace.json'' = trace_prefix @ plain_stringify (markTrace 1 0 ''a'' ''B'')"
    by (simp add: plain_runtime_def)
  from f a1 a2 a3 a4 [unfolded fn] r b1 o c1 c3 show ?thesis by (intro conjI) simp_all
qed

text \<open>
  The claim as it was stated fails on a writer that is not open yet: the stream of the
  new writer is \<^verbatim>\<open>null\<close>, and \<^verbatim>\<open>writeTrace\<close> returns false and leaves the buffer empty.
\<close>

theorem writeTrace_unopened_counterexample:
  "stream fresh_writer = None \<and>
   \<not> fst (writeTrace plain_runtime (markTrace 1 0 ''a'' ''B'') (fresh_writer, empty_world)) \<and>
   bufferedEntries (fst (snd (writeTrace plain_runtime (markTrace 1 0 ''a'' ''B'') (fresh_writer, empty_world)))) = []"
  by (simp add: writeTrace_def fresh_writer_def initial_def)

subsection \<open>Reopening an existing file, and the size counter\<close>

text \<open>
  C2. The claim says that \<^verbatim>\<open>open()\<close> appends to an existing file. The code seeds
  \<^verbatim>\<open>fileSize\<close> from the existing file and then opens the stream with \<^verbatim>\<open>flags: 'w'\<close>:
  \<^verbatim>\<open>trace.json\<close> holds the three bytes \<^verbatim>\<open>old\<close>, and after \<^verbatim>\<open>open()\<close> the size counter is 3
  and the file is empty; the first record then stands at the start of the file.
\<close>

theorem open_truncates_existing_file:
  "files old_world ''trace.json'' = Some ''old'' \<and>
   open_all plain_runtime no_fault (fresh_writer, old_world)
     = (Inr (), opened_writer\<lparr>fileSize := Fin 3\<rparr>, opened_world) \<and>
   files opened_world ''trace.json'' = Some [] \<and>
   files (snd (snd (writeTrace plain_runtime (markTrace 1 0 ''a'' ''B'')
                      (opened_writer\<lparr>fileSize := Fin 3\<rparr>, opened_world)))) ''trace.json''
     = Some (trace_prefix @ plain_stringify (markTrace 1 0 ''a'' ''B''))"
proof (intro conjI)
  show "files old_world ''trace.json'' = Some ''old''" by (simp add: old_world_def)
  show "open_all plain_runtime no_fault (fresh_writer, old_world)
     = (Inr (), opened_writer\<lparr>fileSize := Fin 3\<rparr>, opened_world)"
    by (simp add: open_all_def open_begin_def open_stat_def open_stream_def getFileSize_def
          bfs_stat_def openStream_def no_fault_def fresh_writer_def initial_def old_world_def
          opened_writer_def opened_world_def drain_empty)
  show "files opened_world ''trace.json'' = Some []" by (simp add: opened_world_def)
  show "files (snd (snd (writeTrace plain_runtime (markTrace 1 0 ''a'' ''B'')
                      (opened_writer\<lparr>fileSize := Fin 3\<rparr>, opened_world)))) ''trace.json''
     = Some (trace_prefix @ plain_stringify (markTrace 1 0 ''a'' ''B''))"
    by (simp add: writeTrace_def Let_def opened_writer_def fresh_writer_def initial_def
          opened_world_def content_def markTrace_def get_prop_def plain_runtime_def)
qed

lemma markTrace_length: "get_prop (markTrace p t name phase) ''length'' = Undefined"
  by (simp add: get_prop_def markTrace_def)

lemma writeTrace_without_length:
  assumes "map_of json ''length'' = None"
    and "\<not> rotating w" "stream w = Some st" "\<not> closing w"
  shows "fileSize (fst (snd (writeTrace rt json (w, wd)))) = NaN"
    and "\<not> rotating (fst (snd (writeTrace rt json (w, wd))))"
proof -
  have n: "plus_assign (fileSize w) (get_prop json ''length'') = NaN"
    using assms(1) by (cases "fileSize w") (simp_all add: get_prop_def)
  have g: "\<not> num_ge NaN (maxFileSize w)" by simp
  show "fileSize (fst (snd (writeTrace rt json (w, wd)))) = NaN"
    using assms(2-4) n g by (simp add: writeTrace_def Let_def)
  show "\<not> rotating (fst (snd (writeTrace rt json (w, wd))))"
    using assms(2-4) n g by (simp add: writeTrace_def Let_def)
qed

text \<open>
  C3. The claim says that a direct write adds the length of the serialized record to
  the size and rotates when the threshold is reached. The code adds \<^verbatim>\<open>json.length\<close>, the
  \<^verbatim>\<open>length\<close> property of the record object, where the serialized string is \<^verbatim>\<open>str\<close>. With
  \<^verbatim>\<open>maxFileSize = 10\<close> and a record of \<^verbatim>\<open>markTrace\<close>, whose text has 44 bytes, the size
  becomes NaN and no rotation starts, on the first write and on the next.
\<close>

theorem size_update_reads_object_length:
  "length (plain_stringify (markTrace 1 0 ''a'' ''B'')) = 44 \<and>
   get_prop (markTrace 1 0 ''a'' ''B'') ''length'' = Undefined \<and>
   fileSize (fst (snd (writeTrace plain_runtime (markTrace 1 0 ''a'' ''B'')
                         (opened_writer\<lparr>maxFileSize := Fin 10\<rparr>, opened_world)))) = NaN \<and>
   \<not> rotating (fst (snd (writeTrace plain_runtime (markTrace 1 0 ''a'' ''B'')
                         (opened_writer\<lparr>maxFileSize := Fin 10\<rparr>, opened_world)))) \<and>
   \<not> rotating (fst (snd (writeTrace plain_runtime (markTrace 1 5 ''a'' ''E'')
     (snd (writeTrace plain_runtime (markTrace 1 0 ''a'' ''B'')
                         (opened_writer\<lparr>maxFileSize := Fin 10\<rparr>, opened_world))))))"
proof -
  have len: "length (plain_stringify (markTrace 1 0 ''a'' ''B'')) = 44"
    by (simp add: plain_stringify_def markTrace_def show_nat.simps)
  have und: "get_prop (markTrace 1 0 ''a'' ''B'') ''length'' = Undefined"
    by (rule markTrace_length)
  have w1: "snd (writeTrace plain_runtime (markTrace 1 0 ''a'' ''B'')
                         (opened_writer\<lparr>maxFileSize := Fin 10\<rparr>, opened_world))
     = (opened_writer\<lparr>maxFileSize := Fin 10, firstEntry := False, fileSize := NaN\<rparr>,
        stream_write (WriteStream ''trace.json'') (plain_stringify (markTrace 1 0 ''a'' ''B''))
          (stream_write (WriteStream ''trace.json'') trace_prefix opened_world))"
    by (simp add: writeTrace_def Let_def markTrace_length opened_writer_def fresh_writer_def
          initial_def plain_runtime_def)
  have w2: "\<not> rotating (fst (snd (writeTrace plain_runtime (markTrace 1 5 ''a'' ''E'')
      (opened_writer\<lparr>maxFileSize := Fin 10, firstEntry := False, fileSize := NaN\<rparr>,
        stream_write (WriteStream ''trace.json'') (plain_stringify (markTrace 1 0 ''a'' ''B''))
          (stream_write (WriteStream ''trace.json'') trace_prefix opened_world)))))"
    by (rule writeTrace_without_length(2) [where st = "WriteStream ''trace.json''"])
       (simp_all add: markTrace_def opened_writer_def fresh_writer_def initial_def)
  show ?thesis
    unfolding w1 using len und w2
    by (simp add: opened_writer_def fresh_writer_def initial_def)
qed

subsection \<open>The first entry of a rotated-in file\<close>

text \<open>
  C4. The claim says that every file of a rotation cycle starts with the prefix
  \<^verbatim>\<open>{"traceEvents": [\<close>, and that the first record after a rotation is written as a
  first entry. \<^verbatim>\<open>firstEntry\<close> is set to true by the constructor only; \<^verbatim>\<open>rotate()\<close> and
  \<^verbatim>\<open>open()\<close> leave it false. In both runs above the rotated file has the shape claimed
  and the new active file starts with a comma: it holds \<^verbatim>\<open>,<record>\<close> after the write
  and, in the first run, \<^verbatim>\<open>,<record>]}\<close> after the close.
\<close>

theorem first_entry_after_rotation:
  "files (snd after_close) ''trace.0.json''
     = Some (trace_prefix @ plain_stringify (markTrace 1 0 ''a'' ''B'') @ '']}'') \<and>
   \<not> firstEntry (fst after_rotation) \<and>
   files (snd after_rotation) ''trace.json'' = Some [] \<and>
   files (snd after_second_write) ''trace.json''
     = Some ('','' @ plain_stringify (markTrace 1 5 ''a'' ''E'')) \<and>
   files (snd after_close) ''trace.json''
     = Some ('','' @ plain_stringify (markTrace 1 5 ''a'' ''E'') @ '']}'') \<and>
   rotating (fst after_threshold) \<and>
   files (snd after_threshold_rotation) ''trace.0.json''
     = Some (trace_prefix @ plain_stringify sized_record @ '']}'') \<and>
   \<not> rotating (fst after_threshold_rotation) \<and>
   files (snd after_threshold_rotation) ''trace.json'' = Some [] \<and>
   files (snd after_threshold_write) ''trace.json''
     = Some ('','' @ plain_stringify (markTrace 1 5 ''a'' ''E''))"
  by code_simp

subsection \<open>Order of the records\<close>









end
